theory Spec2Isabelle
  imports Complex_Main "HOL-Library.Sublist" "HOL-Library.Multiset"
begin

section \<open>JavaScript values as the analyzers observe them\<close>

text \<open>
  The analyzers are JavaScript. Three kinds of value need care.

  \<^item> Numbers computed from dates may be \<open>NaN\<close> (an unparseable date string gives an
    invalid \<open>Date\<close>, and every arithmetic on it gives \<open>NaN\<close>); every comparison with
    \<open>NaN\<close> is false. A timestamp is a whole number of milliseconds of magnitude at most
    \<open>8.64e15\<close>, below \<open>2^53\<close>: timestamps, clock readings and their differences are
    exact (\<open>int\<close>, quotients in \<open>rat\<close>). The difference of two input dates can pass
    \<open>2^53\<close> and is rounded as a double (\<open>dateDiff\<close>).
  \<^item> A date field is absent (any falsy value), a truthy value that does not parse, or a
    value that parses to a timestamp in milliseconds.
  \<^item> The eviction analyzer tests its flags with \<open>x === true || x === 'true'\<close>, so a
    flag is the boolean \<open>true\<close>, the string \<open>'true'\<close>, or anything else.

  \<open>new Date()\<close> is the clock: every function that reads it takes the reading \<open>now\<close>
  (milliseconds) as an argument, one reading per evaluation.
\<close>

datatype jsnum = NaN | Num int

datatype jsdate = NoDate | BadDate | Date int

datatype jsflag = JTrue | JStrTrue | JOther

definition isTrue :: "jsflag \<Rightarrow> bool" where
  "isTrue f = (f = JTrue \<or> f = JStrTrue)"

definition truthyDate :: "jsdate \<Rightarrow> bool" where
  "truthyDate d = (d \<noteq> NoDate)"

text \<open>\<open>new Date(v).getTime()\<close> for a truthy \<open>v\<close>; the callers guard the absent case.\<close>

fun getTime :: "jsdate \<Rightarrow> jsnum" where
  "getTime (Date t) = Num t"
| "getTime BadDate = NaN"
| "getTime NoDate = NaN"

fun js_sub :: "jsnum \<Rightarrow> jsnum \<Rightarrow> jsnum" where
  "js_sub (Num a) (Num b) = Num (a - b)"
| "js_sub _ _ = NaN"

text \<open>
  The difference of two input dates. The timestamps of valid dates range over
  \<open>-8.64e15\<close> to \<open>8.64e15\<close> ms, so such a difference can pass \<open>2^53\<close> in magnitude, and there the
  subtraction of two doubles gives the nearest double, a tie going to the even
  mantissa. \<open>roundToDouble\<close> is that rounding on the integers; \<open>bitLength\<close> is the number
  of binary digits. A difference against the clock reading stays below \<open>2^53\<close> and is
  exact (\<open>js_sub\<close>).
\<close>

function bitLength :: "int \<Rightarrow> nat" where
  "bitLength n = (if n \<le> 0 then 0 else Suc (bitLength (n div 2)))"
  by pat_completeness auto
termination
  by (relation "measure nat") auto

declare bitLength.simps [simp del]

definition roundToDouble :: "int \<Rightarrow> int" where
  "roundToDouble x =
     (let a = \<bar>x\<bar> in
      if a < 2 ^ 53 then x
      else
        (let u = 2 ^ (bitLength a - 53); q = a div u; r = a mod u;
             q' = (if 2 * r < u then q
                   else if 2 * r > u then q + 1
                   else if even q then q else q + 1)
         in sgn x * (q' * u)))"

fun dateDiff :: "jsnum \<Rightarrow> jsnum \<Rightarrow> jsnum" where
  "dateDiff (Num a) (Num b) = Num (roundToDouble (a - b))"
| "dateDiff _ _ = NaN"

fun js_lt :: "jsnum \<Rightarrow> int \<Rightarrow> bool" where
  "js_lt (Num a) b = (a < b)"
| "js_lt NaN b = False"

fun js_le :: "jsnum \<Rightarrow> int \<Rightarrow> bool" where
  "js_le (Num a) b = (a \<le> b)"
| "js_le NaN b = False"

fun js_gt :: "jsnum \<Rightarrow> int \<Rightarrow> bool" where
  "js_gt (Num a) b = (a > b)"
| "js_gt NaN b = False"

fun js_ge :: "jsnum \<Rightarrow> int \<Rightarrow> bool" where
  "js_ge (Num a) b = (a \<ge> b)"
| "js_ge NaN b = False"

text \<open>\<open>Math.max(0, x)\<close>: \<open>NaN\<close> if \<open>x\<close> is.\<close>

fun js_max0 :: "jsnum \<Rightarrow> jsnum" where
  "js_max0 (Num a) = Num (max 0 a)"
| "js_max0 NaN = NaN"

text \<open>
  \<open>Math.floor(x / (1000 * 60 * 60 * 24))\<close> and \<open>Math.ceil\<close> of the same quotient. For a
  whole number \<open>x\<close> that is a double of magnitude below \<open>2^54\<close>, the quotient differs
  from a whole number by more than half the spacing of the doubles there unless it is
  one, so the double quotient and the exact one have the same floor and ceiling.
\<close>

fun floorDays :: "jsnum \<Rightarrow> jsnum" where
  "floorDays (Num ms) = Num \<lfloor>(of_int ms :: rat) / (1000 * 60 * 60 * 24)\<rfloor>"
| "floorDays NaN = NaN"

fun ceilDays :: "jsnum \<Rightarrow> jsnum" where
  "ceilDays (Num ms) = Num \<lceil>(of_int ms :: rat) / (1000 * 60 * 60 * 24)\<rceil>"
| "ceilDays NaN = NaN"

subsection \<open>Strings\<close>

text \<open>
  Strings are ASCII texts. \<open>toLowerCase\<close> maps \<open>A\<close>..\<open>Z\<close> to \<open>a\<close>..\<open>z\<close> and leaves
  every other character; \<open>s.includes(k)\<close> holds when \<open>k\<close> occurs in \<open>s\<close> as a
  contiguous run. A missing string field reads as the empty string, which is what
  \<open>x || ''\<close> makes of it.
\<close>

definition lowerChar :: "char \<Rightarrow> char" where
  "lowerChar c =
     (case map_of (zip ''ABCDEFGHIJKLMNOPQRSTUVWXYZ'' ''abcdefghijklmnopqrstuvwxyz'') c of
        None \<Rightarrow> c
      | Some l \<Rightarrow> l)"

definition toLowerCase :: "string \<Rightarrow> string" where
  "toLowerCase s = map lowerChar s"

fun str_includes :: "string \<Rightarrow> string \<Rightarrow> bool" where
  "str_includes [] k = (k = [])"
| "str_includes (c # cs) k = (prefix k (c # cs) \<or> str_includes cs k)"

text \<open>\<open>keywords.some(k => s.includes(k))\<close>.\<close>

definition includesAny :: "string \<Rightarrow> string list \<Rightarrow> bool" where
  "includesAny s ks = list_ex (str_includes s) ks"

text \<open>\<open>x || dflt\<close> on a string field.\<close>

definition orElse :: "string \<Rightarrow> string \<Rightarrow> string" where
  "orElse s dflt = (if s = [] then dflt else s)"

section \<open>Eviction situation analyzer (lib/eviction-situation-analyzer.js)\<close>

subsection \<open>Input and policy data\<close>

record situationData =
  evictionReason :: string
  county :: string
  noticeReceived :: jsflag
  noticeDate :: jsdate
  noticeType :: string
  filingDate :: jsdate
  courtDate :: jsdate
  judgmentReceived :: jsflag
  judgmentDate :: jsdate
  paymentMade :: jsflag
  propertyCondition :: string
  recentComplaint :: jsflag
  violationCured :: jsflag
  rentAcceptedAfterLeaseEnd :: jsflag
  tenantUnaware :: jsflag
  reportedActivity :: jsflag
  partialPaymentAccepted :: jsflag
  locksChanged :: jsflag
  utilitiesShutOff :: jsflag

text \<open>
  \<open>procedures.json\<close> is data outside the source tree, so it is a parameter: for each
  eviction type the strategy object (if any) with its \<open>defenseOptions\<close> (if any).
\<close>

record procedureDefense =
  pd_id :: string
  pd_name :: string
  pd_description :: string
  pd_checklist :: "string list option"
  pd_documentation :: "string list option"
  pd_citation :: "string option"
  pd_caveat :: "string option"

record strategy =
  defenseOptions :: "procedureDefense list option"

type_synonym defenseStrategies = "string \<Rightarrow> strategy option"

record evictionType =
  et_type :: string
  displayName :: string
  noticeRequired :: int
  et_description :: string
  procedures :: "strategy option"

datatype strength = Strong | Moderate | Potential

record defense =
  d_id :: string
  d_name :: string
  d_description :: string
  d_checklist :: "string list option"
  d_documentation :: "string list"
  d_strength :: strength
  d_citation :: "string option"
  d_caveat :: "string option"
  d_remedies :: "string list option"

text \<open>
  An entry of \<open>timelineAnalysis.issues\<close>. The rendered \<open>message\<close>, \<open>details\<close> and
  \<open>deadline\<close> texts repeat the numbers held in \<open>calculationDetails\<close> and are left out.
\<close>

record issue =
  i_type :: string
  i_severity :: string
  i_defense :: "string option"

record calculationDetails =
  daysBetweenNoticeAndFiling :: "jsnum option"
  requiredDays :: "int option"
  cd_noticeDate :: "jsdate option"
  cd_filingDate :: "jsdate option"
  daysUntilCourt :: "jsnum option"
  cd_courtDate :: "jsdate option"
  daysSinceJudgment :: "jsnum option"
  daysLeftToAppeal :: "jsnum option"

record timelineAnalysis =
  noticeGiven :: bool
  ta_noticeDate :: jsdate
  ta_noticeType :: string
  ta_courtDate :: jsdate
  ta_filingDate :: jsdate
  issues :: "issue list"
  compliant :: bool
  details :: calculationDetails

subsection \<open>determineEvictionType\<close>

definition determineEvictionType :: "defenseStrategies \<Rightarrow> situationData \<Rightarrow> evictionType" where
  "determineEvictionType ds data =
     (let lowerReasons = toLowerCase (evictionReason data) in
      if str_includes lowerReasons ''non-payment'' \<or>
         str_includes lowerReasons ''nonpayment'' \<or>
         str_includes lowerReasons ''rent'' \<or>
         str_includes lowerReasons ''unpaid'' \<or>
         str_includes lowerReasons ''behind on rent''
      then \<lparr>et_type = ''nonpayment'', displayName = ''Non-Payment of Rent'',
             noticeRequired = 14,
             et_description = ''Landlord claims tenant has not paid rent as required by lease'',
             procedures = ds ''nonpayment''\<rparr>
      else if str_includes lowerReasons ''lease violation'' \<or>
         str_includes lowerReasons ''violation'' \<or>
         str_includes lowerReasons ''breach'' \<or>
         str_includes lowerReasons ''unauthorized'' \<or>
         str_includes lowerReasons ''pet'' \<or>
         str_includes lowerReasons ''guest''
      then \<lparr>et_type = ''leaseViolation'', displayName = ''Lease Violation'',
             noticeRequired = 30,
             et_description = ''Landlord claims tenant violated terms of lease agreement'',
             procedures = ds ''leaseViolation''\<rparr>
      else if str_includes lowerReasons ''holdover'' \<or>
         str_includes lowerReasons ''expired'' \<or>
         str_includes lowerReasons ''end of lease'' \<or>
         str_includes lowerReasons ''staying after'' \<or>
         str_includes lowerReasons ''month to month''
      then \<lparr>et_type = ''holdover'', displayName = ''Holdover Tenant'',
             noticeRequired = 30,
             et_description = ''Landlord claims tenant remained after lease ended'',
             procedures = ds ''holdover''\<rparr>
      else if str_includes lowerReasons ''criminal'' \<or>
         str_includes lowerReasons ''illegal'' \<or>
         str_includes lowerReasons ''drug'' \<or>
         str_includes lowerReasons ''crime'' \<or>
         str_includes lowerReasons ''nuisance''
      then \<lparr>et_type = ''illegalActivity'', displayName = ''Criminal/Illegal Activity'',
             noticeRequired = 3,
             et_description = ''Landlord claims criminal or illegal activity occurred on premises'',
             procedures = ds ''illegalActivity''\<rparr>
      else \<lparr>et_type = ''nonpayment'', displayName = ''Non-Payment of Rent (Assumed)'',
             noticeRequired = 14,
             et_description = ''Based on information provided, appears to be non-payment eviction'',
             procedures = ds ''nonpayment''\<rparr>)"

subsection \<open>analyzeTimeline\<close>

definition insufficientNotice :: issue where
  "insufficientNotice =
     \<lparr>i_type = ''insufficient_notice'', i_severity = ''high'', i_defense = Some ''improper_notice''\<rparr>"

definition mkIssue :: "string \<Rightarrow> string \<Rightarrow> issue" where
  "mkIssue t s = \<lparr>i_type = t, i_severity = s, i_defense = None\<rparr>"

text \<open>The block "Check if proper notice period was given".\<close>

definition checkNotice :: "evictionType \<Rightarrow> timelineAnalysis \<Rightarrow> timelineAnalysis" where
  "checkNotice evictionType analysis =
     (if truthyDate (ta_noticeDate analysis) \<and> truthyDate (ta_filingDate analysis) then
        (let daysBetween =
               floorDays (dateDiff (getTime (ta_filingDate analysis)) (getTime (ta_noticeDate analysis)));
             a1 = analysis\<lparr>details := (details analysis)
                    \<lparr>daysBetweenNoticeAndFiling := Some daysBetween,
                     requiredDays := Some (noticeRequired evictionType),
                     cd_noticeDate := Some (ta_noticeDate analysis),
                     cd_filingDate := Some (ta_filingDate analysis)\<rparr>\<rparr>
         in if js_lt daysBetween (noticeRequired evictionType)
            then a1\<lparr>issues := issues a1 @ [insufficientNotice], compliant := False\<rparr>
            else a1)
      else analysis)"

text \<open>The block "Check for upcoming deadlines".\<close>

definition checkCourt :: "int \<Rightarrow> timelineAnalysis \<Rightarrow> timelineAnalysis" where
  "checkCourt now analysis =
     (if truthyDate (ta_courtDate analysis) then
        (let daysUntil = ceilDays (js_sub (getTime (ta_courtDate analysis)) (Num now));
             a1 = analysis\<lparr>details := (details analysis)
                    \<lparr>daysUntilCourt := Some daysUntil,
                     cd_courtDate := Some (ta_courtDate analysis)\<rparr>\<rparr>
         in if js_le daysUntil 0
            then a1\<lparr>issues := issues a1 @ [mkIssue ''past_court_date'' ''critical'']\<rparr>
            else if js_le daysUntil 3
            then a1\<lparr>issues := issues a1 @ [mkIssue ''urgent_court_date'' ''critical'']\<rparr>
            else if js_le daysUntil 7
            then a1\<lparr>issues := issues a1 @ [mkIssue ''upcoming_court_date'' ''high'']\<rparr>
            else a1)
      else analysis)"

text \<open>The block "Check if judgment received (10-day appeal window)".\<close>

definition checkAppeal :: "int \<Rightarrow> situationData \<Rightarrow> timelineAnalysis \<Rightarrow> timelineAnalysis" where
  "checkAppeal now data analysis =
     (if isTrue (judgmentReceived data) then
        (let judgment = (if truthyDate (judgmentDate data) then getTime (judgmentDate data) else Num now);
             daysSince = floorDays (js_sub (Num now) judgment);
             daysLeft = js_max0 (js_sub (Num 10) daysSince);
             a1 = analysis\<lparr>details := (details analysis)
                    \<lparr>daysSinceJudgment := Some daysSince,
                     daysLeftToAppeal := Some daysLeft\<rparr>\<rparr>
         in if js_gt daysLeft 0
            then a1\<lparr>issues := issues a1 @ [mkIssue ''appeal_deadline'' ''critical'']\<rparr>
            else a1\<lparr>issues := issues a1 @ [mkIssue ''appeal_deadline_passed'' ''critical'']\<rparr>)
      else analysis)"

definition noDetails :: calculationDetails where
  "noDetails = \<lparr>daysBetweenNoticeAndFiling = None, requiredDays = None, cd_noticeDate = None,
     cd_filingDate = None, daysUntilCourt = None, cd_courtDate = None,
     daysSinceJudgment = None, daysLeftToAppeal = None\<rparr>"

definition analyzeTimeline :: "int \<Rightarrow> defenseStrategies \<Rightarrow> situationData \<Rightarrow> timelineAnalysis" where
  "analyzeTimeline now ds data =
     (let analysis = \<lparr>noticeGiven = isTrue (noticeReceived data),
                       ta_noticeDate = noticeDate data,
                       ta_noticeType = orElse (noticeType data) ''unknown'',
                       ta_courtDate = courtDate data,
                       ta_filingDate = filingDate data,
                       issues = [], compliant = True, details = noDetails\<rparr>;
          evictionType = determineEvictionType ds data
      in checkAppeal now data (checkCourt now (checkNotice evictionType analysis)))"

subsection \<open>Defenses\<close>

text \<open>\<open>x || null\<close> on an optional text: the empty text is falsy.\<close>

definition orNull :: "string option \<Rightarrow> string option" where
  "orNull x = (case x of None \<Rightarrow> None | Some t \<Rightarrow> if t = [] then None else Some t)"

definition mapProcedureDefense :: "procedureDefense \<Rightarrow> situationData \<Rightarrow> defense" where
  "mapProcedureDefense procedureDefense data =
     (let defense = \<lparr>d_id = pd_id procedureDefense,
                      d_name = pd_name procedureDefense,
                      d_description = pd_description procedureDefense,
                      d_checklist = Some (case pd_checklist procedureDefense of None \<Rightarrow> [] | Some c \<Rightarrow> c),
                      d_documentation = (case pd_documentation procedureDefense of None \<Rightarrow> [] | Some c \<Rightarrow> c),
                      d_strength = Potential,
                      d_citation = orNull (pd_citation procedureDefense),
                      d_caveat = orNull (pd_caveat procedureDefense),
                      d_remedies = None\<rparr>;
          i = pd_id procedureDefense
      in if i = ''improper_notice'' \<or> i = ''improper_notice_30'' \<or>
            i = ''improper_termination_notice'' \<or> i = ''improper_3_day_notice''
         then defense\<lparr>d_strength := (if \<not> isTrue (noticeReceived data) then Strong else Potential)\<rparr>
         else if i = ''payment_made''
         then defense\<lparr>d_strength := (if isTrue (paymentMade data) then Strong else Potential)\<rparr>
         else if i = ''habitability''
         then defense\<lparr>d_strength :=
                (if propertyCondition data = ''poor'' \<or> propertyCondition data = ''uninhabitable''
                 then Moderate else Potential)\<rparr>
         else if i = ''retaliation''
         then defense\<lparr>d_strength := (if isTrue (recentComplaint data) then Moderate else Potential)\<rparr>
         else if i = ''violation_cured''
         then defense\<lparr>d_strength := (if isTrue (violationCured data) then Strong else Potential)\<rparr>
         else if i = ''no_violation''
         then defense\<lparr>d_strength := Potential\<rparr>
         else if i = ''new_tenancy_created''
         then defense\<lparr>d_strength := (if isTrue (rentAcceptedAfterLeaseEnd data) then Moderate else Potential)\<rparr>
         else if i = ''lack_of_knowledge''
         then defense\<lparr>d_strength := (if isTrue (tenantUnaware data) then Moderate else Potential)\<rparr>
         else if i = ''prompt_action''
         then defense\<lparr>d_strength := (if isTrue (reportedActivity data) then Moderate else Potential)\<rparr>
         else defense\<lparr>d_strength := Potential\<rparr>)"

definition partialPaymentDefense :: defense where
  "partialPaymentDefense =
     \<lparr>d_id = ''partial_payment_acceptance'',
      d_name = ''Acceptance of Partial Payment'',
      d_description = ''Landlord accepted partial payment after notice, potentially waiving eviction right'',
      d_checklist = None,
      d_documentation = [''Receipt showing payment'', ''Bank records'', ''Text/email confirmation''],
      d_strength = Moderate,
      d_citation = None,
      d_caveat = Some ''Effect varies based on circumstances and lease terms'',
      d_remedies = None\<rparr>"

definition selfHelpDefense :: defense where
  "selfHelpDefense =
     \<lparr>d_id = ''self_help_eviction'',
      d_name = ''Illegal Self-Help Eviction'',
      d_description = ''Landlord attempted illegal self-help eviction methods'',
      d_checklist = None,
      d_documentation = [''Photos of changed locks'', ''Utility shut-off records'', ''Witness statements''],
      d_strength = Strong,
      d_citation = Some ''TCA 66-28-512'',
      d_caveat = None,
      d_remedies = Some [''May be entitled to damages'',
                         ''May recover actual damages plus up to 3 months rent'']\<rparr>"

definition addUniversalDefenses :: "defense list \<Rightarrow> situationData \<Rightarrow> defense list" where
  "addUniversalDefenses defenses data =
     (let d1 = (if isTrue (partialPaymentAccepted data) then defenses @ [partialPaymentDefense]
                else defenses)
      in if isTrue (locksChanged data) \<or> isTrue (utilitiesShutOff data)
         then d1 @ [selfHelpDefense] else d1)"

definition identifyDefenses :: "situationData \<Rightarrow> evictionType \<Rightarrow> defense list" where
  "identifyDefenses data evictionType =
     (let procedureDefenses =
            (case procedures evictionType of
               None \<Rightarrow> []
             | Some s \<Rightarrow> (case defenseOptions s of None \<Rightarrow> [] | Some l \<Rightarrow> l))
      in addUniversalDefenses (map (\<lambda>p. mapProcedureDefense p data) procedureDefenses) data)"

text \<open>
  \<open>[...defenses].sort((a, b) => orderA - orderB)\<close>. \<open>Array.prototype.sort\<close> is a stable
  sort (ECMAScript 2019), and the comparator orders by the number \<open>strengthOrder\<close> gives,
  so the result is the stable sort by that key; \<open>sort_key\<close> is one. The three strength
  tags are the only ones the analyzer writes, so the fallback \<open>|| 4\<close> is never taken.
\<close>

fun strengthOrder :: "strength \<Rightarrow> nat" where
  "strengthOrder Strong = 1"
| "strengthOrder Moderate = 2"
| "strengthOrder Potential = 3"

definition prioritizeDefenses :: "defense list \<Rightarrow> defense list" where
  "prioritizeDefenses defenses = sort_key (\<lambda>d. strengthOrder (d_strength d)) defenses"

subsection \<open>determineUrgency and analyzeSituation\<close>

definition determineUrgency :: "int \<Rightarrow> situationData \<Rightarrow> string" where
  "determineUrgency now data =
     (if isTrue (judgmentReceived data) then ''critical''
      else if truthyDate (courtDate data) then
        (let daysUntilCourt = ceilDays (js_sub (getTime (courtDate data)) (Num now))
         in if js_le daysUntilCourt 3 then ''critical''
            else if js_le daysUntilCourt 7 then ''urgent''
            else if js_le daysUntilCourt 14 then ''elevated''
            else ''standard'')
      else ''standard'')"

text \<open>
  The analysis record, without \<open>nextSteps\<close>, \<open>missingInformation\<close> and \<open>resources\<close>
  (texts and the legal-aid directory). \<open>timestamp\<close> is \<open>new Date().toISOString()\<close>, which
  determines and is determined by the clock reading.
\<close>

record evictionAnalysis =
  timestamp :: int
  ea_evictionType :: evictionType
  ea_timelineAnalysis :: timelineAnalysis
  defenses :: "defense list"
  recommendedDefenses :: "defense list"
  urgencyLevel :: string
  ea_county :: string

definition analyzeSituation :: "int \<Rightarrow> defenseStrategies \<Rightarrow> situationData \<Rightarrow> evictionAnalysis" where
  "analyzeSituation now ds situationData =
     (let evictionType = determineEvictionType ds situationData;
          defs = identifyDefenses situationData evictionType
      in \<lparr>timestamp = now,
          ea_evictionType = evictionType,
          ea_timelineAnalysis = analyzeTimeline now ds situationData,
          defenses = defs,
          recommendedDefenses = prioritizeDefenses defs,
          urgencyLevel = determineUrgency now situationData,
          ea_county = orElse (county situationData) ''unknown''\<rparr>)"

subsection \<open>The multi-state eviction packet generator's classifier\<close>

text \<open>
  The multi-state packet generator has its own \<open>determineEvictionType(reason, config)\<close>,
  called with the lower-cased \<open>evictionReason || reason || ''\<close>. The notice periods come
  from \<open>STATE_CONFIG\<close>; one of them is a text, not a number of days.
\<close>

datatype notice = Days int | NoticeText string

record noticePeriods =
  np_nonpayment :: notice
  np_leaseViolation :: notice
  np_holdover :: notice
  np_illegalActivity :: "notice option"

record stateConfig =
  sc_name :: string
  sc_noticePeriods :: noticePeriods
  sc_appealDays :: int

definition config_tn :: stateConfig where
  "config_tn = \<lparr>sc_name = ''Tennessee'',
     sc_noticePeriods = \<lparr>np_nonpayment = Days 14, np_leaseViolation = Days 30,
                         np_holdover = Days 30, np_illegalActivity = Some (Days 3)\<rparr>,
     sc_appealDays = 10\<rparr>"

definition config_pa :: stateConfig where
  "config_pa = \<lparr>sc_name = ''Pennsylvania'',
     sc_noticePeriods = \<lparr>np_nonpayment = Days 10, np_leaseViolation = Days 15,
                         np_holdover = Days 30, np_illegalActivity = None\<rparr>,
     sc_appealDays = 30\<rparr>"

definition config_nj :: stateConfig where
  "config_nj = \<lparr>sc_name = ''New Jersey'',
     sc_noticePeriods = \<lparr>np_nonpayment = Days 30,
                         np_leaseViolation = NoticeText ''Notice to Cease + Notice to Quit'',
                         np_holdover = Days 30, np_illegalActivity = None\<rparr>,
     sc_appealDays = 45\<rparr>"

definition config_ms :: stateConfig where
  "config_ms = \<lparr>sc_name = ''Mississippi'',
     sc_noticePeriods = \<lparr>np_nonpayment = Days 3, np_leaseViolation = Days 30,
                         np_holdover = Days 30, np_illegalActivity = None\<rparr>,
     sc_appealDays = 5\<rparr>"

record stateEvictionType =
  st_type :: string
  st_displayName :: string
  st_noticeRequired :: notice
  st_description :: string

text \<open>\<open>config.noticePeriods.illegalActivity || 3\<close>: absent, \<open>0\<close> and the empty text are falsy.\<close>

fun illegalActivityNotice :: "notice option \<Rightarrow> notice" where
  "illegalActivityNotice None = Days 3"
| "illegalActivityNotice (Some (Days n)) = (if n = 0 then Days 3 else Days n)"
| "illegalActivityNotice (Some (NoticeText t)) = (if t = [] then Days 3 else NoticeText t)"

definition determineEvictionType_state :: "string \<Rightarrow> stateConfig \<Rightarrow> stateEvictionType" where
  "determineEvictionType_state reason config =
     (if str_includes reason ''non-payment'' \<or> str_includes reason ''nonpayment'' \<or>
         str_includes reason ''rent''
      then \<lparr>st_type = ''nonpayment'', st_displayName = ''Non-Payment of Rent'',
             st_noticeRequired = np_nonpayment (sc_noticePeriods config),
             st_description = ''Landlord claims tenant has not paid rent as required by lease''\<rparr>
      else if str_includes reason ''violation'' \<or> str_includes reason ''breach''
      then \<lparr>st_type = ''leaseViolation'', st_displayName = ''Lease Violation'',
             st_noticeRequired = np_leaseViolation (sc_noticePeriods config),
             st_description = ''Landlord claims tenant violated terms of lease agreement''\<rparr>
      else if str_includes reason ''holdover'' \<or> str_includes reason ''expired'' \<or>
         str_includes reason ''end of lease''
      then \<lparr>st_type = ''holdover'', st_displayName = ''Holdover Tenant'',
             st_noticeRequired = np_holdover (sc_noticePeriods config),
             st_description = ''Landlord claims tenant remained after lease ended''\<rparr>
      else if str_includes reason ''illegal'' \<or> str_includes reason ''criminal'' \<or>
         str_includes reason ''drug''
      then \<lparr>st_type = ''illegalActivity'', st_displayName = ''Criminal/Illegal Activity'',
             st_noticeRequired = illegalActivityNotice (np_illegalActivity (sc_noticePeriods config)),
             st_description = ''Landlord claims criminal or illegal activity occurred on premises''\<rparr>
      else \<lparr>st_type = ''nonpayment'', st_displayName = ''Non-Payment of Rent'',
             st_noticeRequired = np_nonpayment (sc_noticePeriods config),
             st_description = ''Landlord claims tenant has not paid rent as required by lease''\<rparr>)"

text \<open>
  The call in \<open>analyzeSituationForState\<close>: \<open>reason1\<close> is \<open>situationData.evictionReason\<close>
  and \<open>reason2\<close> is \<open>situationData.reason\<close>.
\<close>

definition evictionTypeForState :: "string \<Rightarrow> string \<Rightarrow> stateConfig \<Rightarrow> stateEvictionType" where
  "evictionTypeForState reason1 reason2 config =
     determineEvictionType_state (toLowerCase (orElse reason1 reason2)) config"

subsection \<open>The classifier as the specification words it\<close>

text \<open>
  An ordered list of rules, each a keyword list with a category; a rule matches when one
  of its keywords occurs in the lower-cased description; the answer is the category of
  the first matching rule, or the default category.
\<close>

type_synonym rule = "string list \<times> string"

definition ruleMatches :: "string \<Rightarrow> rule \<Rightarrow> bool" where
  "ruleMatches description r = list_ex (\<lambda>k. sublist k (toLowerCase description)) (fst r)"

definition classifyFirstMatch :: "rule list \<Rightarrow> string \<Rightarrow> string \<Rightarrow> string" where
  "classifyFirstMatch rules dflt description =
     (case find (ruleMatches description) rules of None \<Rightarrow> dflt | Some r \<Rightarrow> snd r)"

definition evictionRules :: "rule list" where
  "evictionRules =
     [([''non-payment'', ''nonpayment'', ''rent'', ''unpaid'', ''behind on rent''], ''nonpayment''),
      ([''lease violation'', ''violation'', ''breach'', ''unauthorized'', ''pet'', ''guest''],
       ''leaseViolation''),
      ([''holdover'', ''expired'', ''end of lease'', ''staying after'', ''month to month''],
       ''holdover''),
      ([''criminal'', ''illegal'', ''drug'', ''crime'', ''nuisance''], ''illegalActivity'')]"

definition stateEvictionRules :: "rule list" where
  "stateEvictionRules =
     [([''non-payment'', ''nonpayment'', ''rent''], ''nonpayment''),
      ([''violation'', ''breach''], ''leaseViolation''),
      ([''holdover'', ''expired'', ''end of lease''], ''holdover''),
      ([''illegal'', ''criminal'', ''drug''], ''illegalActivity'')]"

section \<open>Tennessee expungement situation analyzer\<close>

text \<open>
  The input as the analyzer reads it: the three texts through \<open>(x || '').toLowerCase()\<close>,
  the flags through their truthiness, the completion date through
  \<open>x ? new Date(x) : null\<close>.
\<close>

record situation =
  chargeType :: string
  chargeDescription :: string
  outcome :: string
  sentenceCompletionDate :: jsdate
  allFinesPaid :: bool
  probationCompleted :: bool
  diversionCompleted :: bool
  hasPendingCharges :: bool

text \<open>
  The tags \<open>determineChargeType\<close> and \<open>determineOutcome\<close> return are fixed strings; they
  are enumerations here.
\<close>

datatype category = Felony | Misdemeanor | UnknownCategory

datatype caseOutcome =
  Dismissed | Acquitted | DiversionCompleted | DiversionPending | Convicted | UnknownOutcome

record chargeInfo =
  ct_category :: category
  ct_class :: string
  ct_description :: string

definition extractFelonyClass :: "string \<Rightarrow> string" where
  "extractFelonyClass t =
     (if str_includes t ''class a'' \<and> str_includes t ''felony'' then ''Class A''
      else if str_includes t ''class b'' \<and> str_includes t ''felony'' then ''Class B''
      else if str_includes t ''class c'' \<and> str_includes t ''felony'' then ''Class C''
      else if str_includes t ''class d'' \<and> str_includes t ''felony'' then ''Class D''
      else if str_includes t ''class e'' \<or> str_includes t ''classe'' then ''Class E''
      else ''Unknown'')"

definition extractMisdemeanorClass :: "string \<Rightarrow> string" where
  "extractMisdemeanorClass t =
     (if str_includes t ''class a'' \<and> \<not> str_includes t ''felony'' then ''Class A''
      else if str_includes t ''class b'' \<and> \<not> str_includes t ''felony'' then ''Class B''
      else if str_includes t ''class c'' \<and> \<not> str_includes t ''felony'' then ''Class C''
      else ''Unknown'')"

definition determineChargeType :: "situation \<Rightarrow> chargeInfo" where
  "determineChargeType situation =
     (let t = toLowerCase (chargeType situation) in
      if str_includes t ''felony'' \<or> str_includes t ''class e'' \<or> str_includes t ''class d''
      then \<lparr>ct_category = Felony, ct_class = extractFelonyClass t, ct_description = ''Felony''\<rparr>
      else if str_includes t ''misdemeanor'' \<or> str_includes t ''class a'' \<or>
              str_includes t ''class b'' \<or> str_includes t ''class c''
      then \<lparr>ct_category = Misdemeanor, ct_class = extractMisdemeanorClass t,
             ct_description = ''Misdemeanor''\<rparr>
      else \<lparr>ct_category = UnknownCategory, ct_class = ''unknown'',
             ct_description = ''Unknown - Verification Required''\<rparr>)"

definition determineOutcome :: "situation \<Rightarrow> caseOutcome" where
  "determineOutcome situation =
     (let oc = toLowerCase (outcome situation) in
      if str_includes oc ''dismiss'' \<or> str_includes oc ''dropped'' then Dismissed
      else if str_includes oc ''acquitt'' \<or> str_includes oc ''not guilty'' \<or>
              str_includes oc ''found not guilty'' then Acquitted
      else if str_includes oc ''diversion'' \<or> str_includes oc ''deferred''
      then (if diversionCompleted situation then DiversionCompleted else DiversionPending)
      else if str_includes oc ''convict'' \<or> str_includes oc ''guilty'' \<or> str_includes oc ''plea''
      then Convicted
      else UnknownOutcome)"

record blockingFactor =
  factor :: string
  severity :: string
  bf_description :: string
  statute :: "string option"

record eligibility =
  status :: string
  confidence :: string
  reasons :: "string list"
  blockingFactors :: "blockingFactor list"
  waitingPeriod :: "string option"
  waitingPeriodMet :: bool
  requirements :: "string list"

record ineligibilityCheck =
  ineligible :: bool
  reason :: "blockingFactor option"

definition blocked :: "string \<Rightarrow> string \<Rightarrow> string \<Rightarrow> ineligibilityCheck" where
  "blocked f d s =
     \<lparr>ineligible = True,
      reason = Some \<lparr>factor = f, severity = ''blocking'', bf_description = d, statute = Some s\<rparr>\<rparr>"

definition violentIndicators :: "string list" where
  "violentIndicators = [''murder'', ''manslaughter'', ''kidnap'', ''robbery'', ''arson'',
     ''homicide'', ''weapon'', ''firearm'', ''gun'']"

definition checkIneligibleOffenses :: "situation \<Rightarrow> chargeInfo \<Rightarrow> ineligibilityCheck" where
  "checkIneligibleOffenses situation ct =
     (let description = toLowerCase (chargeDescription situation) in
      if str_includes description ''dui'' \<or> str_includes description ''driving under'' \<or>
         str_includes description ''d.u.i''
      then blocked ''DUI conviction''
             ''DUI convictions are not eligible for expungement in Tennessee'' ''TCA 40-32-101(g)''
      else if str_includes description ''domestic'' \<and>
              (str_includes description ''assault'' \<or> str_includes description ''violence'')
      then blocked ''Domestic assault conviction''
             ''Domestic assault convictions are not eligible for expungement in Tennessee''
             ''TCA 40-32-101(g)''
      else if str_includes description ''sex'' \<or> str_includes description ''rape'' \<or>
              str_includes description ''sexual'' \<or> str_includes description ''statutory''
      then blocked ''Sex offense''
             ''Sex offenses are not eligible for expungement in Tennessee'' ''TCA 40-32-101''
      else if ct_category ct = Felony \<and> includesAny description violentIndicators
      then blocked ''Violent felony''
             ''Violent felonies are not eligible for expungement in Tennessee''
             ''TCA 40-32-101(a)(1)(B)''
      else if str_includes description ''traffick'' \<or> str_includes description ''manufacture'' \<or>
              str_includes description ''distribute'' \<or> str_includes description ''sell''
      then blocked ''Drug trafficking/manufacturing''
             ''Drug trafficking and manufacturing offenses are not eligible for expungement in Tennessee''
             ''TCA 40-32-101''
      else \<lparr>ineligible = False, reason = None\<rparr>)"

text \<open>
  \<open>checkWaitingPeriod\<close>. The years since completion are the elapsed milliseconds over
  \<open>1000 * 60 * 60 * 24 * 365\<close>, not rounded; \<open>None\<close> stands for \<open>NaN\<close>. The display text
  \<open>yearsRemaining\<close> (\<open>toFixed(1)\<close>) is left out: nothing reads it.
\<close>

record waitingPeriodCheck =
  wp_required :: string
  wp_met :: bool
  wp_note :: "string option"

definition yearsSinceCompletion :: "int \<Rightarrow> jsdate \<Rightarrow> rat option" where
  "yearsSinceCompletion now completionDate =
     (case getTime completionDate of
        NaN \<Rightarrow> None
      | Num t \<Rightarrow> Some ((of_int (now - t) :: rat) / (1000 * 60 * 60 * 24 * 365)))"

definition yearsAtLeast :: "rat option \<Rightarrow> rat \<Rightarrow> bool" where
  "yearsAtLeast y n = (case y of None \<Rightarrow> False | Some v \<Rightarrow> v \<ge> n)"

definition checkWaitingPeriod :: "int \<Rightarrow> situation \<Rightarrow> chargeInfo \<Rightarrow> waitingPeriodCheck" where
  "checkWaitingPeriod now situation ct =
     (if \<not> truthyDate (sentenceCompletionDate situation)
      then \<lparr>wp_required = (if ct_category ct = Felony then ''5 years'' else ''1 year''),
             wp_met = False,
             wp_note = Some ''Sentence completion date not provided''\<rparr>
      else
        (let y = yearsSinceCompletion now (sentenceCompletionDate situation) in
         if ct_category ct = Felony
         then \<lparr>wp_required = ''5 years'', wp_met = yearsAtLeast y 5, wp_note = None\<rparr>
         else \<lparr>wp_required = ''1 year'', wp_met = yearsAtLeast y 1, wp_note = None\<rparr>))"

record obligationsCheck =
  ob_met :: bool
  ob_issues :: "string list"

definition checkCourtObligations :: "situation \<Rightarrow> obligationsCheck" where
  "checkCourtObligations situation =
     (let finesPaid = allFinesPaid situation; probationDone = probationCompleted situation in
      if \<not> finesPaid \<or> \<not> probationDone
      then \<lparr>ob_met = False,
             ob_issues = (if \<not> finesPaid then [''Outstanding fines or court costs''] else []) @
                         (if \<not> probationDone then [''Probation not completed''] else [])\<rparr>
      else \<lparr>ob_met = True, ob_issues = []\<rparr>)"

definition pendingChargesFactor :: blockingFactor where
  "pendingChargesFactor =
     \<lparr>factor = ''Pending criminal charges'', severity = ''blocking'',
      bf_description = ''You cannot file for expungement while you have pending criminal charges'',
      statute = None\<rparr>"

definition obligationsFactor :: blockingFactor where
  "obligationsFactor =
     \<lparr>factor = ''Outstanding court obligations'', severity = ''blocking'',
      bf_description = ''All fines, costs, and restitution must be paid before expungement'',
      statute = None\<rparr>"

definition initialEligibility :: eligibility where
  "initialEligibility =
     \<lparr>status = ''unknown'', confidence = ''low'', reasons = [], blockingFactors = [],
      waitingPeriod = None, waitingPeriodMet = False, requirements = []\<rparr>"

definition assessEligibility :: "int \<Rightarrow> situation \<Rightarrow> chargeInfo \<Rightarrow> caseOutcome \<Rightarrow> eligibility" where
  "assessEligibility now situation ct oc =
     (let e = initialEligibility in
      if hasPendingCharges situation
      then e\<lparr>status := ''ineligible'', blockingFactors := [pendingChargesFactor]\<rparr>
      else if oc = Dismissed \<or> oc = Acquitted
      then e\<lparr>status := ''eligible'', confidence := ''high'', waitingPeriod := Some ''None'',
              waitingPeriodMet := True,
              reasons := [''Charges were dismissed or resulted in acquittal''],
              requirements := [''Obtain certified copy of dismissal or acquittal order'']\<rparr>
      else if oc = DiversionCompleted
      then e\<lparr>status := ''eligible'', confidence := ''high'',
              waitingPeriod := Some ''None (after completion)'', waitingPeriodMet := True,
              reasons := [''Diversion program was successfully completed''],
              requirements := [''Obtain Certificate of Completion from diversion program'']\<rparr>
      else if oc = DiversionPending
      then e\<lparr>status := ''pending'', confidence := ''medium'',
              reasons := [''Diversion program not yet completed''],
              requirements := [''Complete all diversion requirements'']\<rparr>
      else if oc = Convicted
      then
        (let ineligibilityCheck = checkIneligibleOffenses situation ct in
         if ineligible ineligibilityCheck
         then e\<lparr>status := ''ineligible'', confidence := ''high'',
                 blockingFactors := (case reason ineligibilityCheck of None \<Rightarrow> [] | Some r \<Rightarrow> [r])\<rparr>
         else
           (let waitingPeriodCheck = checkWaitingPeriod now situation ct;
                e1 = e\<lparr>waitingPeriod := Some (wp_required waitingPeriodCheck),
                       waitingPeriodMet := wp_met waitingPeriodCheck\<rparr>;
                obligations = checkCourtObligations situation
            in if \<not> waitingPeriodMet e1
               then e1\<lparr>status := ''pending'', confidence := ''medium'',
                       reasons := [''Waiting period of '' @ wp_required waitingPeriodCheck @
                                   '' not yet completed''],
                       requirements := [''Wait until '' @ wp_required waitingPeriodCheck @
                                        '' have passed since sentence completion'']\<rparr>
               else if \<not> ob_met obligations
               then e1\<lparr>status := ''ineligible'', confidence := ''medium'',
                       blockingFactors := [obligationsFactor]\<rparr>
               else e1\<lparr>status := ''eligible'', confidence := ''medium'',
                       reasons := [''Basic eligibility requirements appear to be met''],
                       requirements := [''Verify eligibility with court clerk or attorney'']\<rparr>))
      else e\<lparr>status := ''unknown'', confidence := ''low'',
              requirements := [''Obtain records to determine case outcome'']\<rparr>)"

text \<open>
  \<open>determineProcedure\<close>. \<open>procedures.json\<close> is outside the source tree, so what it holds
  is a parameter: \<open>procs\<close> is the value of \<open>procedures.procedures\<close>, \<open>None\<close> when the file
  has no such table (\<open>undefined\<close> or \<open>null\<close>), else the table. A table maps a key to
  nothing, to a falsy value (\<open>null\<close>, \<open>false\<close>, \<open>0\<close>, the empty text) or to a procedure.
  Reading a key of a missing table raises a \<open>TypeError\<close>: \<open>determineProcedure\<close> reads
  \<open>procedures.procedures[procedureKey]\<close> unguarded. \<open>x || null\<close> turns a missing and a
  falsy entry into \<open>null\<close>, which is \<open>None\<close> in the result.
\<close>

datatype jsError = TypeError

datatype 'p entry = Falsy | Entry 'p

type_synonym 'p procedureTable = "string \<Rightarrow> 'p entry option"

definition entryOrNull :: "'p entry option \<Rightarrow> 'p option" where
  "entryOrNull v = (case v of None \<Rightarrow> None | Some Falsy \<Rightarrow> None | Some (Entry p) \<Rightarrow> Some p)"

definition proceduresMap :: "chargeInfo \<Rightarrow> caseOutcome \<Rightarrow> string option" where
  "proceduresMap ct oc =
     (case oc of
        Dismissed \<Rightarrow> Some ''dismissedCharges''
      | Acquitted \<Rightarrow> Some ''dismissedCharges''
      | DiversionCompleted \<Rightarrow>
          Some (if ct_category ct = Felony then ''judicialDiversion'' else ''judicialDiversion'')
      | Convicted \<Rightarrow>
          Some (if ct_category ct = Felony then ''felonyConviction'' else ''misdemeanorConviction'')
      | DiversionPending \<Rightarrow> None
      | UnknownOutcome \<Rightarrow> None)"

definition determineProcedure :: "'p procedureTable option \<Rightarrow> caseOutcome \<Rightarrow> chargeInfo \<Rightarrow> jsError + 'p option" where
  "determineProcedure procs oc ct =
     (let procedureKey = (case proceduresMap ct oc of None \<Rightarrow> ''general'' | Some k \<Rightarrow> k)
      in case procs of
           None \<Rightarrow> Inl TypeError
         | Some table \<Rightarrow> Inr (entryOrNull (table procedureKey)))"

text \<open>
  The analysis record, with the fields that carry the verdict; the warnings,
  recommendations, steps, timeline and fee texts are derived from these and left out.
  An error raised by \<open>determineProcedure\<close> leaves \<open>analyzeSituation\<close> uncaught, so the
  analysis is the error.
\<close>

record ('p) expungementAnalysis =
  xa_timestamp :: int
  xa_eligibility :: eligibility
  xa_procedure :: "'p option"

definition analyzeSituation_tn :: "int \<Rightarrow> 'p procedureTable option \<Rightarrow> situation \<Rightarrow> jsError + 'p expungementAnalysis" where
  "analyzeSituation_tn now procs situation =
     (let ct = determineChargeType situation;
          oc = determineOutcome situation;
          e = assessEligibility now situation ct oc
      in case determineProcedure procs oc ct of
           Inl err \<Rightarrow> Inl err
         | Inr p \<Rightarrow> Inr \<lparr>xa_timestamp = now, xa_eligibility = e, xa_procedure = p\<rparr>)"

section \<open>Multi-state expungement packet generator\<close>

text \<open>
  \<open>analyzeEligibility(state, situationData)\<close> reads the charge type and the outcome
  (lower-cased, the empty text when missing), the two dates and, in Tennessee, the
  diversion type. \<open>hasPendingCharges\<close> is a documented input of the API that calls it, so
  it is a field of the record, although the function never reads it. Statutes and
  procedures are loaded from files: \<open>dataAvailable\<close> says whether both loaded for a state.
\<close>

record stateSituation =
  ss_chargeType :: string
  ss_outcome :: string
  ss_convictionDate :: jsdate
  ss_sentenceCompletionDate :: jsdate
  ss_diversionType :: "string option"
  ss_hasPendingCharges :: bool

record expungementState =
  xs_name :: string
  xs_cleanSlate :: bool
  xs_hasAutomaticSealing :: bool

definition STATE_CONFIG :: "string \<Rightarrow> expungementState option" where
  "STATE_CONFIG code =
     (if code = ''TN''
      then Some \<lparr>xs_name = ''Tennessee'', xs_cleanSlate = False, xs_hasAutomaticSealing = False\<rparr>
      else if code = ''PA''
      then Some \<lparr>xs_name = ''Pennsylvania'', xs_cleanSlate = True, xs_hasAutomaticSealing = True\<rparr>
      else if code = ''NJ''
      then Some \<lparr>xs_name = ''New Jersey'', xs_cleanSlate = True, xs_hasAutomaticSealing = True\<rparr>
      else None)"

text \<open>
  \<open>calculateYearsSince(date)\<close>: \<open>0\<close> for no date, else
  \<open>Math.floor((now - date) / (1000 * 60 * 60 * 24 * 365.25))\<close>.
\<close>

definition calculateYearsSince :: "int \<Rightarrow> jsdate \<Rightarrow> jsnum" where
  "calculateYearsSince now date =
     (case date of
        NoDate \<Rightarrow> Num 0
      | BadDate \<Rightarrow> NaN
      | Date t \<Rightarrow> Num \<lfloor>(of_int (now - t) :: rat) / (1000 * 60 * 60 * 24 * 365.25)\<rfloor>)"

text \<open>\<open>a || b\<close> on two dates, each \<open>x ? new Date(x) : null\<close>: an invalid date is truthy.\<close>

definition orDate :: "jsdate \<Rightarrow> jsdate \<Rightarrow> jsdate" where
  "orDate a b = (if truthyDate a then a else b)"

text \<open>A number inside a template text.\<close>

fun showNat :: "nat \<Rightarrow> string" where
  "showNat n =
     (if n < 10 then [''0123456789'' ! n]
      else showNat (n div 10) @ [''0123456789'' ! (n mod 10)])"

fun showNum :: "jsnum \<Rightarrow> string" where
  "showNum NaN = ''NaN''"
| "showNum (Num i) = (if i < 0 then CHR ''-'' # showNat (nat (- i)) else showNat (nat i))"

record stateFactor =
  sf_factor :: string
  sf_description :: string

record stateEligibility =
  se_status :: string
  se_confidence :: string
  se_waitingPeriod :: "string option"
  se_waitingPeriodMet :: "bool option"
  se_reasons :: "string list"
  se_blockingFactors :: "stateFactor list"

record cleanSlateInfo =
  cs_available :: bool
  cs_automaticSealing :: bool
  cs_eligible :: bool
  cs_estimatedTimeline :: "string option"

record petitionInfo =
  pb_available :: bool
  pb_eligible :: bool
  pb_estimatedTimeline :: "string option"

record stateAnalysis =
  sa_state :: string
  sa_stateName :: string
  sa_eligibility :: stateEligibility
  sa_cleanSlate :: cleanSlateInfo
  sa_petitionBased :: petitionInfo
  applicableProcedure :: "string option"
  nextSteps :: "string list"
  warnings :: "string list"
  recommendations :: "string list"

record caseContext =
  hasConviction :: bool
  wasDismissed :: bool
  completedDiversion :: bool
  cx_chargeType :: string
  yearsSinceDisposition :: jsnum

text \<open>The assignments the three state functions make on \<open>analysis\<close>, and their sequencing.\<close>

definition setStatus :: "string \<Rightarrow> stateAnalysis \<Rightarrow> stateAnalysis" where
  "setStatus s a = a\<lparr>sa_eligibility := (sa_eligibility a)\<lparr>se_status := s\<rparr>\<rparr>"

definition setWaitingPeriod :: "string \<Rightarrow> stateAnalysis \<Rightarrow> stateAnalysis" where
  "setWaitingPeriod w a = a\<lparr>sa_eligibility := (sa_eligibility a)\<lparr>se_waitingPeriod := Some w\<rparr>\<rparr>"

definition setWaitingPeriodMet :: "bool \<Rightarrow> stateAnalysis \<Rightarrow> stateAnalysis" where
  "setWaitingPeriodMet b a =
     a\<lparr>sa_eligibility := (sa_eligibility a)\<lparr>se_waitingPeriodMet := Some b\<rparr>\<rparr>"

definition pushReason :: "string \<Rightarrow> stateAnalysis \<Rightarrow> stateAnalysis" where
  "pushReason r a =
     a\<lparr>sa_eligibility := (sa_eligibility a)\<lparr>se_reasons := se_reasons (sa_eligibility a) @ [r]\<rparr>\<rparr>"

definition pushBlockingFactor :: "string \<Rightarrow> string \<Rightarrow> stateAnalysis \<Rightarrow> stateAnalysis" where
  "pushBlockingFactor f d a =
     a\<lparr>sa_eligibility := (sa_eligibility a)
        \<lparr>se_blockingFactors := se_blockingFactors (sa_eligibility a) @
           [\<lparr>sf_factor = f, sf_description = d\<rparr>]\<rparr>\<rparr>"

definition cleanSlateEligible :: "stateAnalysis \<Rightarrow> stateAnalysis" where
  "cleanSlateEligible a = a\<lparr>sa_cleanSlate := (sa_cleanSlate a)\<lparr>cs_eligible := True\<rparr>\<rparr>"

definition cleanSlateTimeline :: "string \<Rightarrow> stateAnalysis \<Rightarrow> stateAnalysis" where
  "cleanSlateTimeline t a = a\<lparr>sa_cleanSlate := (sa_cleanSlate a)\<lparr>cs_estimatedTimeline := Some t\<rparr>\<rparr>"

definition petitionEligible :: "stateAnalysis \<Rightarrow> stateAnalysis" where
  "petitionEligible a = a\<lparr>sa_petitionBased := (sa_petitionBased a)\<lparr>pb_eligible := True\<rparr>\<rparr>"

definition petitionTimeline :: "string \<Rightarrow> stateAnalysis \<Rightarrow> stateAnalysis" where
  "petitionTimeline t a =
     a\<lparr>sa_petitionBased := (sa_petitionBased a)\<lparr>pb_estimatedTimeline := Some t\<rparr>\<rparr>"

definition setProcedure :: "string \<Rightarrow> stateAnalysis \<Rightarrow> stateAnalysis" where
  "setProcedure p a = a\<lparr>applicableProcedure := Some p\<rparr>"

definition pushNextStep :: "string \<Rightarrow> stateAnalysis \<Rightarrow> stateAnalysis" where
  "pushNextStep s a = a\<lparr>nextSteps := nextSteps a @ [s]\<rparr>"

definition pushWarning :: "string \<Rightarrow> stateAnalysis \<Rightarrow> stateAnalysis" where
  "pushWarning s a = a\<lparr>warnings := warnings a @ [s]\<rparr>"

definition pushRecommendation :: "string \<Rightarrow> stateAnalysis \<Rightarrow> stateAnalysis" where
  "pushRecommendation s a = a\<lparr>recommendations := recommendations a @ [s]\<rparr>"

definition inOrder :: "('a \<Rightarrow> 'a) list \<Rightarrow> 'a \<Rightarrow> 'a" where
  "inOrder fs a = fold (\<lambda>f x. f x) fs a"

text \<open>\<open>`${n - yearsSinceDisposition} more years`\<close>.\<close>

definition moreYears :: "int \<Rightarrow> jsnum \<Rightarrow> string" where
  "moreYears n y = showNum (js_sub (Num n) y) @ '' more years''"

definition analyzePAEligibility :: "caseContext \<Rightarrow> stateAnalysis \<Rightarrow> stateAnalysis" where
  "analyzePAEligibility cx analysis =
     (let ct = cx_chargeType cx; y = yearsSinceDisposition cx;
          a1 =
            (if wasDismissed cx then
               inOrder [cleanSlateEligible,
                        cleanSlateTimeline ''Automatic sealing - no waiting period'',
                        setStatus ''eligible'',
                        pushReason ''Non-conviction records are automatically sealed under Clean Slate'',
                        setProcedure ''cleanSlateAutomatic''] analysis
             else if hasConviction cx then
               (let isDUI = (str_includes ct ''dui'' \<or> str_includes ct ''dwi'' \<or>
                             str_includes ct ''driving under'');
                    isViolent = (str_includes ct ''violent'' \<or> str_includes ct ''assault'' \<or>
                                 str_includes ct ''robbery'');
                    isSexOffense = (str_includes ct ''sex'' \<or> str_includes ct ''rape'' \<or>
                                    str_includes ct ''molestation'');
                    isChildCrime = (str_includes ct ''child'' \<or> str_includes ct ''minor'')
                in if isDUI then
                     inOrder [pushBlockingFactor ''DUI Conviction''
                                ''DUI convictions are not eligible for automatic Clean Slate sealing in Pennsylvania'',
                              setStatus ''limited'',
                              pushWarning ''DUI convictions require petition-based expungement and may have limited eligibility'',
                              setProcedure ''ardCompletion''] analysis
                   else if isViolent \<or> isSexOffense \<or> isChildCrime then
                     inOrder [pushBlockingFactor ''Excluded Offense''
                                ''This offense type is excluded from Clean Slate automatic sealing'',
                              setStatus ''ineligible''] analysis
                   else if str_includes ct ''felony'' \<or> str_includes ct ''indictable'' then
                     (if js_ge y 10 then
                        inOrder [cleanSlateEligible,
                                 cleanSlateTimeline ''Automatic sealing - 10-year period met'',
                                 setStatus ''eligible'',
                                 pushReason ''Non-violent felony eligible for Clean Slate after 10 years'',
                                 setProcedure ''nonViolentFelony''] analysis
                      else
                        inOrder [setStatus ''pending'',
                                 setWaitingPeriod (moreYears 10 y),
                                 setWaitingPeriodMet False,
                                 pushReason (''Must wait until 10-year period is complete ('' @
                                             moreYears 10 y @ '')''),
                                 setProcedure ''nonViolentFelony''] analysis)
                   else if str_includes ct ''misdemeanor'' then
                     (if js_ge y 10 then
                        inOrder [cleanSlateEligible,
                                 cleanSlateTimeline ''Automatic sealing - 10-year period met'',
                                 setStatus ''eligible'',
                                 pushReason ''Misdemeanor eligible for Clean Slate after 10 years'',
                                 setProcedure ''cleanSlateAutomatic''] analysis
                      else
                        inOrder [setStatus ''pending'',
                                 setWaitingPeriod (moreYears 10 y),
                                 setWaitingPeriodMet False,
                                 pushReason (''Must wait until 10-year period is complete ('' @
                                             moreYears 10 y @ '')''),
                                 setProcedure ''cleanSlateAutomatic''] analysis)
                   else if str_includes ct ''summary'' then
                     (if js_ge y 5 then
                        inOrder [cleanSlateEligible,
                                 cleanSlateTimeline ''Automatic sealing - 5-year period met'',
                                 setStatus ''eligible'',
                                 pushReason ''Summary offense eligible for Clean Slate after 5 years'',
                                 setProcedure ''summaryOffense''] analysis
                      else
                        inOrder [setStatus ''pending'',
                                 setWaitingPeriod (moreYears 5 y),
                                 setWaitingPeriodMet False,
                                 pushReason (''Must wait until 5-year period is complete ('' @
                                             moreYears 5 y @ '')''),
                                 setProcedure ''summaryOffense''] analysis)
                   else analysis)
             else if completedDiversion cx \<or> str_includes ct ''ard'' then
               inOrder [petitionEligible,
                        petitionTimeline ''30-60 days after filing'',
                        setStatus ''eligible'',
                        pushReason ''ARD/diversion completion is eligible for petition-based expungement'',
                        setProcedure ''ardCompletion''] analysis
             else analysis);
          a2 = (if cs_eligible (sa_cleanSlate a1) then
                  inOrder [pushNextStep ''Your record may be automatically sealed - verify status with PA State Police'',
                           pushNextStep ''Check PAeDocket (ujsportal.pacourts.us) to see if case is sealed''] a1
                else a1);
          a3 = (if pb_eligible (sa_petitionBased a2) then
                  inOrder [pushNextStep ''File petition for expungement with Court of Common Pleas'',
                           pushNextStep ''Serve copy on District Attorney''] a2
                else a2)
      in pushRecommendation
           ''Pennsylvania Clean Slate is FREE - no petition required for automatic sealing'' a3)"

definition njExcluded :: "string list" where
  "njExcluded = [''murder'', ''homicide'', ''kidnapping'', ''sexual assault'', ''rape'',
     ''robbery'', ''arson'', ''child porn'', ''terrorism'', ''perjury'', ''official misconduct'']"

definition analyzeNJEligibility :: "caseContext \<Rightarrow> stateAnalysis \<Rightarrow> stateAnalysis" where
  "analyzeNJEligibility cx analysis =
     (let ct = cx_chargeType cx; y = yearsSinceDisposition cx;
          a1 =
            (if wasDismissed cx then
               inOrder [petitionEligible,
                        petitionTimeline ''6-month waiting period, then 30-60 days for petition'',
                        setStatus ''eligible'',
                        pushReason ''Dismissed charges eligible for expungement after 6 months'',
                        setProcedure ''arrestNoConviction''] analysis
             else if hasConviction cx then
               (let isExcluded = includesAny ct njExcluded;
                    isDrugDistribution = (str_includes ct ''distribution'' \<or>
                       str_includes ct ''manufacturing'' \<or> str_includes ct ''trafficking'');
                    isIndictable = (str_includes ct ''felony'' \<or> str_includes ct ''indictable'');
                    isDisorderly = (str_includes ct ''misdemeanor'' \<or> str_includes ct ''disorderly'');
                    isMunicipal = (str_includes ct ''ordinance'' \<or> str_includes ct ''municipal'');
                    isDomesticViolence = (str_includes ct ''domestic'' \<or> str_includes ct ''dv'')
                in if isExcluded then
                     inOrder [pushBlockingFactor ''Excluded Offense''
                                ''This offense type is not eligible for expungement in New Jersey'',
                              setStatus ''ineligible''] analysis
                   else if isDrugDistribution then
                     inOrder [pushBlockingFactor ''Drug Distribution''
                                ''Drug distribution/manufacturing offenses are generally not eligible for expungement'',
                              setStatus ''limited'',
                              pushWarning ''Drug distribution offenses have very limited expungement eligibility''] analysis
                   else if isIndictable then
                     (if js_ge y 10 then
                        inOrder [cleanSlateEligible, petitionEligible,
                                 cleanSlateTimeline ''Automatic - Clean Slate process'',
                                 petitionTimeline ''60-120 days'',
                                 setStatus ''eligible'',
                                 pushReason ''Eligible for both Clean Slate (automatic) and petition-based expungement'',
                                 setProcedure ''indictableOffense''] analysis
                      else if js_ge y 5 then
                        inOrder [petitionEligible,
                                 petitionTimeline ''60-120 days'',
                                 setStatus ''eligible'',
                                 pushReason ''Eligible for 5-year early pathway expungement'',
                                 setProcedure ''indictableOffense'',
                                 pushWarning ''Early pathway requires showing compelling need''] analysis
                      else
                        inOrder [setStatus ''pending'',
                                 setWaitingPeriod (moreYears 5 y @ '' (early pathway) or '' @
                                                   moreYears 10 y @ '' (standard)''),
                                 setWaitingPeriodMet False,
                                 setProcedure ''indictableOffense''] analysis)
                   else if isDisorderly then
                     (let b1 =
                        (if js_ge y 5 then
                           inOrder [cleanSlateEligible, petitionEligible,
                                    setStatus ''eligible'',
                                    pushReason ''Disorderly persons offense eligible after 5 years'',
                                    setProcedure ''disorderlyPersons''] analysis
                         else if js_ge y 4 then
                           inOrder [petitionEligible,
                                    setStatus ''eligible'',
                                    pushReason ''Eligible for 4-year early pathway'',
                                    setProcedure ''disorderlyPersons''] analysis
                         else
                           inOrder [setStatus ''pending'',
                                    setWaitingPeriod (moreYears 5 y),
                                    setProcedure ''disorderlyPersons''] analysis)
                      in if isDomesticViolence then
                           pushBlockingFactor ''Domestic Violence''
                             ''Certain domestic violence offenses may not be eligible'' b1
                         else b1)
                   else if isMunicipal then
                     (if js_ge y 2 then
                        inOrder [setStatus ''eligible'',
                                 petitionEligible,
                                 pushReason ''Municipal ordinance eligible after 2 years'',
                                 setProcedure ''municipalOrdinance''] analysis
                      else
                        inOrder [setStatus ''pending'',
                                 setWaitingPeriod (moreYears 2 y),
                                 setProcedure ''municipalOrdinance''] analysis)
                   else analysis)
             else if completedDiversion cx \<or> str_includes ct ''drug court'' then
               inOrder [petitionEligible,
                        petitionTimeline ''30-60 days'',
                        setStatus ''eligible'',
                        pushReason ''Drug court graduates eligible for immediate expungement'',
                        setProcedure ''drugCourtGraduate''] analysis
             else analysis);
          a2 = (if cs_eligible (sa_cleanSlate a1) then
                  pushNextStep ''Your record may be automatically expunged under Clean Slate - verify with NJ State Police'' a1
                else a1);
          a3 = (if pb_eligible (sa_petitionBased a2) then
                  inOrder [pushNextStep ''File petition with Superior Court in county where arrest occurred'',
                           pushNextStep ''Serve County Prosecutor, Attorney General, and State Police'',
                           pushNextStep ''$75 filing fee required (may be waived for indigent)''] a2
                else a2)
      in pushRecommendation
           ''New Jersey Clean Slate is FREE - automatic after 10 crime-free years'' a3)"

definition analyzeTNEligibility :: "stateSituation \<Rightarrow> caseContext \<Rightarrow> stateAnalysis \<Rightarrow> stateAnalysis" where
  "analyzeTNEligibility sd cx analysis =
     (let ct = cx_chargeType cx; y = yearsSinceDisposition cx;
          a1 =
            (if wasDismissed cx then
               inOrder [setStatus ''eligible'',
                        pushReason ''Dismissed or acquitted charges are immediately eligible'',
                        petitionEligible,
                        petitionTimeline ''30-60 days'',
                        setProcedure ''dismissedCharges''] analysis
             else if completedDiversion cx then
               inOrder [setStatus ''eligible'',
                        pushReason ''Completed diversion is eligible for expungement'',
                        petitionEligible,
                        petitionTimeline ''30-60 days'',
                        setProcedure
                          (case ss_diversionType sd of
                             None \<Rightarrow> ''pretrialDiversion''
                           | Some t \<Rightarrow> if str_includes t ''judicial'' then ''judicialDiversion''
                                       else ''pretrialDiversion'')] analysis
             else if hasConviction cx then
               (let isDUI = (str_includes ct ''dui'' \<or> str_includes ct ''dwi'');
                    isDomesticAssault = (str_includes ct ''domestic'' \<and> str_includes ct ''assault'');
                    isSexOffense = (str_includes ct ''sex'' \<or> str_includes ct ''rape'');
                    isFelony = str_includes ct ''felony'';
                    isMisdemeanor = str_includes ct ''misdemeanor''
                in if isDUI \<or> isDomesticAssault \<or> isSexOffense then
                     inOrder [pushBlockingFactor ''Ineligible Offense''
                                ''This offense type is not eligible for expungement in Tennessee'',
                              setStatus ''ineligible''] analysis
                   else if isFelony then
                     (if js_ge y 5 then
                        inOrder [setStatus ''eligible'',
                                 pushReason ''Non-violent felony eligible after 5 years'',
                                 petitionEligible,
                                 petitionTimeline ''90-120 days'',
                                 setProcedure ''felonyConviction''] analysis
                      else
                        inOrder [setStatus ''pending'',
                                 setWaitingPeriod (moreYears 5 y),
                                 setProcedure ''felonyConviction''] analysis)
                   else if isMisdemeanor then
                     (if js_ge y 1 then
                        inOrder [setStatus ''eligible'',
                                 pushReason ''Misdemeanor eligible after 1 year'',
                                 petitionEligible,
                                 petitionTimeline ''60-90 days'',
                                 setProcedure ''misdemeanorConviction''] analysis
                      else
                        inOrder [setStatus ''pending'',
                                 setWaitingPeriod (moreYears 1 y),
                                 setProcedure ''misdemeanorConviction''] analysis)
                   else analysis)
             else analysis)
      in if pb_eligible (sa_petitionBased a1) then
           inOrder [pushNextStep ''File petition with convicting court'',
                    pushNextStep ''Serve District Attorney (30 days to object)''] a1
         else a1)"

definition initialAnalysis :: "string \<Rightarrow> stateAnalysis" where
  "initialAnalysis state =
     \<lparr>sa_state = state,
      sa_stateName = (case STATE_CONFIG state of None \<Rightarrow> state | Some c \<Rightarrow> orElse (xs_name c) state),
      sa_eligibility = \<lparr>se_status = ''pending'', se_confidence = ''medium'',
                        se_waitingPeriod = None, se_waitingPeriodMet = None,
                        se_reasons = [], se_blockingFactors = []\<rparr>,
      sa_cleanSlate = \<lparr>cs_available = (case STATE_CONFIG state of None \<Rightarrow> False | Some c \<Rightarrow> xs_cleanSlate c),
                       cs_automaticSealing =
                         (case STATE_CONFIG state of None \<Rightarrow> False | Some c \<Rightarrow> xs_hasAutomaticSealing c),
                       cs_eligible = False, cs_estimatedTimeline = None\<rparr>,
      sa_petitionBased = \<lparr>pb_available = True, pb_eligible = False, pb_estimatedTimeline = None\<rparr>,
      applicableProcedure = None,
      nextSteps = [], warnings = [], recommendations = []\<rparr>"

text \<open>
  \<open>analyzeEligibility\<close>. The early return \<open>{eligible: false, error: ...}\<close> is the left
  summand, with the error text.
\<close>

definition analyzeEligibility :: "int \<Rightarrow> (string \<Rightarrow> bool) \<Rightarrow> string \<Rightarrow> stateSituation \<Rightarrow> string + stateAnalysis" where
  "analyzeEligibility now dataAvailable state sd =
     (if STATE_CONFIG state = None \<or> \<not> dataAvailable state
      then Inl (''State '' @ state @ '' not supported or data not available'')
      else
        (let analysis = initialAnalysis state;
             oc = toLowerCase (ss_outcome sd);
             cx = \<lparr>hasConviction = includesAny oc [''conviction'', ''convicted'', ''guilty'', ''plea''],
                   wasDismissed = includesAny oc [''dismissed'', ''acquitted'', ''not guilty'',
                                                  ''nolle prosequi'', ''withdrawn''],
                   completedDiversion = includesAny oc [''diversion'', ''ard'', ''probation completed'',
                                                        ''program completed''],
                   cx_chargeType = toLowerCase (ss_chargeType sd),
                   yearsSinceDisposition =
                     calculateYearsSince now (orDate (ss_sentenceCompletionDate sd) (ss_convictionDate sd))\<rparr>
         in Inr (if state = ''PA'' then analyzePAEligibility cx analysis
                 else if state = ''NJ'' then analyzeNJEligibility cx analysis
                 else if state = ''TN'' then analyzeTNEligibility sd cx analysis
                 else inOrder [setStatus ''unknown'',
                               pushWarning (''State '' @ state @ '' analysis not implemented'')] analysis)))"

text \<open>
  In \<open>generatePacket\<close>, \<open>procedures.procedures?.[analysis.applicableProcedure] || null\<close>,
  evaluated when the procedures file loaded. The lookup is guarded: a missing table gives
  \<open>null\<close>. The key is the analysis's procedure key; a \<open>null\<close> key reads the property
  \<open>'null'\<close>, and the error record of \<open>analyzeEligibility\<close>, which has no such field, reads
  \<open>'undefined'\<close>.
\<close>

definition procedureDetails :: "'p procedureTable option \<Rightarrow> string + stateAnalysis \<Rightarrow> 'p option" where
  "procedureDetails procs analysis =
     (let key = (case analysis of
                   Inl err \<Rightarrow> ''undefined''
                 | Inr a \<Rightarrow> (case applicableProcedure a of None \<Rightarrow> ''null'' | Some k \<Rightarrow> k))
      in case procs of None \<Rightarrow> None | Some table \<Rightarrow> entryOrNull (table key))"

section \<open>Sample inputs\<close>

text \<open>Concrete inputs and policy data at which the theorems below are evaluated.\<close>

definition noStrategies :: defenseStrategies where
  "noStrategies = (\<lambda>k. None)"

definition improperNoticeOption :: procedureDefense where
  "improperNoticeOption =
     \<lparr>pd_id = ''improper_notice'', pd_name = ''Improper Notice'',
      pd_description = ''Landlord did not give the notice the law requires'',
      pd_checklist = None, pd_documentation = None, pd_citation = None, pd_caveat = None\<rparr>"

definition sampleStrategies :: defenseStrategies where
  "sampleStrategies =
     (\<lambda>k. if k = ''nonpayment'' then Some \<lparr>defenseOptions = Some [improperNoticeOption]\<rparr>
          else None)"

definition blankData :: situationData where
  "blankData =
     \<lparr>evictionReason = '''', county = '''', noticeReceived = JOther, noticeDate = NoDate,
      noticeType = '''', filingDate = NoDate, courtDate = NoDate, judgmentReceived = JOther,
      judgmentDate = NoDate, paymentMade = JOther, propertyCondition = '''',
      recentComplaint = JOther, violationCured = JOther, rentAcceptedAfterLeaseEnd = JOther,
      tenantUnaware = JOther, reportedActivity = JOther, partialPaymentAccepted = JOther,
      locksChanged = JOther, utilitiesShutOff = JOther\<rparr>"

text \<open>Non-payment, notice received, filed ten days after the notice (fourteen required).\<close>

definition shortNotice :: situationData where
  "shortNotice =
     blankData\<lparr>evictionReason := ''non-payment of rent'', noticeReceived := JTrue,
               noticeDate := Date 0, filingDate := Date 864000000\<rparr>"

text \<open>Filed exactly fourteen days, and thirteen days, after the notice.\<close>

definition filedDay14 :: situationData where
  "filedDay14 =
     blankData\<lparr>evictionReason := ''non-payment of rent'',
               noticeDate := Date 0, filingDate := Date 1209600000\<rparr>"

definition filedDay13 :: situationData where
  "filedDay13 =
     blankData\<lparr>evictionReason := ''non-payment of rent'',
               noticeDate := Date 0, filingDate := Date 1123200000\<rparr>"

text \<open>A notice date that is present and does not parse.\<close>

definition unparseableNotice :: situationData where
  "unparseableNotice =
     blankData\<lparr>evictionReason := ''non-payment of rent'',
               noticeDate := BadDate, filingDate := Date 0\<rparr>"

text \<open>The earliest valid date and the millisecond before the latest one.\<close>

definition farApart :: situationData where
  "farApart =
     blankData\<lparr>evictionReason := ''non-payment of rent'',
               noticeDate := Date (- 8640000000000000), filingDate := Date 8639999999999999\<rparr>"

text \<open>A reason that matches the keywords of two rules.\<close>

definition rentAndViolation :: situationData where
  "rentAndViolation = blankData\<lparr>evictionReason := ''Lease VIOLATION and unpaid Rent''\<rparr>"

text \<open>A judgment date eleven days before the clock reading, the flag not set; and set.\<close>

definition judgmentDateOnly :: situationData where
  "judgmentDateOnly = blankData\<lparr>judgmentDate := Date 0\<rparr>"

definition judgmentElevenDaysAgo :: situationData where
  "judgmentElevenDaysAgo = blankData\<lparr>judgmentReceived := JTrue, judgmentDate := Date 0\<rparr>"

definition elevenDays :: int where
  "elevenDays = 950400000"

definition sampleDefense :: "string \<Rightarrow> strength \<Rightarrow> defense" where
  "sampleDefense i s =
     \<lparr>d_id = i, d_name = i, d_description = '''', d_checklist = None, d_documentation = [],
      d_strength = s, d_citation = None, d_caveat = None, d_remedies = None\<rparr>"

definition sampleDefenses :: "defense list" where
  "sampleDefenses =
     [sampleDefense ''a'' Potential, sampleDefense ''b'' Strong,
      sampleDefense ''c'' Moderate, sampleDefense ''d'' Strong]"

text \<open>Tennessee, charges dismissed, other charges pending.\<close>

definition pendingButDismissed :: stateSituation where
  "pendingButDismissed =
     \<lparr>ss_chargeType = ''misdemeanor theft'', ss_outcome = ''dismissed'',
      ss_convictionDate = NoDate, ss_sentenceCompletionDate = NoDate,
      ss_diversionType = None, ss_hasPendingCharges = True\<rparr>"

definition allAvailable :: "string \<Rightarrow> bool" where
  "allAvailable = (\<lambda>state. True)"

definition verdictStatus :: "string + stateAnalysis \<Rightarrow> string option" where
  "verdictStatus r = (case r of Inl e \<Rightarrow> None | Inr a \<Rightarrow> Some (se_status (sa_eligibility a)))"

definition verdictFactors :: "string + stateAnalysis \<Rightarrow> stateFactor list option" where
  "verdictFactors r =
     (case r of Inl e \<Rightarrow> None | Inr a \<Rightarrow> Some (se_blockingFactors (sa_eligibility a)))"

text \<open>A misdemeanor conviction, every obligation met, no completion date.\<close>

definition convictedNoDate :: situation where
  "convictedNoDate =
     \<lparr>chargeType = ''Class A misdemeanor'', chargeDescription = ''simple theft'',
      outcome = ''Convicted'', sentenceCompletionDate = NoDate, allFinesPaid = True,
      probationCompleted = True, diversionCompleted = False, hasPendingCharges = False\<rparr>"

definition convictedLongAgo :: situation where
  "convictedLongAgo = convictedNoDate\<lparr>sentenceCompletionDate := Date 0\<rparr>"

text \<open>The same conviction with pending charges reported.\<close>

definition convictedPendingCharges :: situation where
  "convictedPendingCharges = convictedNoDate\<lparr>hasPendingCharges := True\<rparr>"

definition generalOnly :: "string procedureTable" where
  "generalOnly =
     (\<lambda>k. if k = ''general'' then Some (Entry ''General expungement procedure'') else None)"

definition emptyTable :: "string procedureTable" where
  "emptyTable = (\<lambda>k. None)"

definition dismissedProcedure :: stateAnalysis where
  "dismissedProcedure = setProcedure ''general'' (initialAnalysis ''TN'')"

definition felonyInfo :: chargeInfo where
  "felonyInfo = \<lparr>ct_category = Felony, ct_class = ''Class E'', ct_description = ''Felony''\<rparr>"

section \<open>Facts about the primitives\<close>

lemma str_includes_sublist: "str_includes s k = sublist k s"
  by (induction s) (auto simp: sublist_Cons_right)

lemma floor_ms_div: "\<lfloor>(of_int ms :: rat) / (1000 * 60 * 60 * 24)\<rfloor> = ms div 86400000"
proof -
  have "(1000 * 60 * 60 * 24 :: rat) = of_int 86400000" by simp
  then show ?thesis by (simp only: floor_divide_of_int_eq)
qed

lemma floorDays_Num: "floorDays (Num ms) = Num (ms div 86400000)"
  by (simp only: floorDays.simps floor_ms_div)

lemma floor_years_div:
  "\<lfloor>(of_int ms :: rat) / (1000 * 60 * 60 * 24 * 365.25)\<rfloor> = ms div 31557600000"
proof -
  have "(1000 * 60 * 60 * 24 * 365.25 :: rat) = of_int 31557600000" by simp
  then show ?thesis by (simp only: floor_divide_of_int_eq)
qed

lemma rat_numeral_le_diff:
  "(numeral k \<le> (of_int a :: rat) - of_int b) = (numeral k \<le> a - b)"
  by (metis of_int_diff of_int_le_iff of_int_numeral)

lemma yearsAtLeast_5:
  "yearsAtLeast (yearsSinceCompletion now (Date t)) 5 = (157680000000 \<le> now - t)"
  by (simp add: yearsAtLeast_def yearsSinceCompletion_def le_divide_eq rat_numeral_le_diff)

lemma yearsAtLeast_1:
  "yearsAtLeast (yearsSinceCompletion now (Date t)) 1 = (31536000000 \<le> now - t)"
  by (simp add: yearsAtLeast_def yearsSinceCompletion_def le_divide_eq rat_numeral_le_diff)

lemma calculateYearsSince_Date:
  "calculateYearsSince now (Date t) = Num ((now - t) div 31557600000)"
  by (simp only: calculateYearsSince_def jsdate.case floor_years_div)

text \<open>The rounding of a date difference: exact below \<open>2^53\<close>, and never across it.\<close>

lemma bitLength_upper: "n < 2 ^ bitLength n"
proof (induction n rule: bitLength.induct)
  case (1 n)
  show ?case
  proof (cases "n \<le> 0")
    case True
    then show ?thesis by (simp add: bitLength.simps[of n])
  next
    case False
    with 1 have "n div 2 < 2 ^ bitLength (n div 2)" by simp
    moreover have "bitLength n = Suc (bitLength (n div 2))"
      using False by (simp add: bitLength.simps[of n])
    ultimately show ?thesis by simp
  qed
qed

lemma bitLength_lower: "0 < n \<Longrightarrow> 2 ^ (bitLength n - 1) \<le> n"
proof (induction n rule: bitLength.induct)
  case (1 n)
  have bn: "bitLength n = Suc (bitLength (n div 2))"
    using 1(2) by (simp add: bitLength.simps[of n])
  show ?case
  proof (cases "n div 2 \<le> 0")
    case True
    then have "bitLength (n div 2) = 0" by (simp add: bitLength.simps[of "n div 2"])
    with bn 1(2) show ?thesis by simp
  next
    case False
    with 1 have ih: "2 ^ (bitLength (n div 2) - 1) \<le> n div 2" by simp
    from False have "bitLength (n div 2) \<noteq> 0"
      by (simp add: bitLength.simps[of "n div 2"])
    then have "(2::int) ^ (bitLength n - 1) = 2 * 2 ^ (bitLength (n div 2) - 1)"
      using bn by (cases "bitLength (n div 2)") simp_all
    with ih show ?thesis by presburger
  qed
qed

lemma bitLength_ge_54:
  assumes "2 ^ 53 \<le> n"
  shows "54 \<le> bitLength n"
proof (rule ccontr)
  assume "\<not> 54 \<le> bitLength n"
  then have b: "bitLength n \<le> 53" by simp
  have "n < 2 ^ bitLength n" by (rule bitLength_upper)
  also have "(2::int) ^ bitLength n \<le> 2 ^ 53"
    using b by (intro power_increasing) simp_all
  finally show False using assms by linarith
qed

lemma roundToDouble_small: "\<bar>x\<bar> < 2 ^ 53 \<Longrightarrow> roundToDouble x = x"
  by (simp add: roundToDouble_def Let_def)

lemma round_magnitude_large:
  assumes a: "(2::int) ^ 53 \<le> a"
  defines "u \<equiv> (2::int) ^ (bitLength a - 53)"
  shows "2 ^ 53 \<le> (a div u) * u" and "2 ^ 53 \<le> (a div u + 1) * u"
proof -
  have b: "54 \<le> bitLength a" using a by (rule bitLength_ge_54)
  have apos: "0 < a" using a by (smt (verit) zero_less_power)
  have upos: "0 < u" by (simp add: u_def)
  have "(2::int) ^ (bitLength a - 1) = 2 ^ 52 * u"
  proof -
    have "bitLength a - 1 = 52 + (bitLength a - 53)" using b by simp
    then show ?thesis by (simp only: u_def power_add)
  qed
  with bitLength_lower[OF apos] have "2 ^ 52 * u \<le> a" by simp
  then have "2 ^ 52 * u div u \<le> a div u"
    using upos by (rule zdiv_mono1)
  then have "2 ^ 52 \<le> a div u"
    using upos by simp
  moreover have "2 \<le> u"
  proof -
    have "1 \<le> bitLength a - 53" using b by simp
    then have "(2::int) ^ 1 \<le> 2 ^ (bitLength a - 53)" by (intro power_increasing) simp_all
    then show ?thesis by (simp add: u_def)
  qed
  ultimately have "2 ^ 52 * 2 \<le> (a div u) * u"
    by (intro mult_mono) simp_all
  then show "2 ^ 53 \<le> (a div u) * u" by simp
  then show "2 ^ 53 \<le> (a div u + 1) * u" using upos by (simp add: distrib_right)
qed

lemma roundToDouble_large:
  assumes "2 ^ 53 \<le> \<bar>x\<bar>"
  shows "\<exists>m. 2 ^ 53 \<le> m \<and> roundToDouble x = sgn x * m"
proof -
  define u where "u = (2::int) ^ (bitLength \<bar>x\<bar> - 53)"
  define q where "q = \<bar>x\<bar> div u"
  define r where "r = \<bar>x\<bar> mod u"
  define q' where "q' = (if 2 * r < u then q else if 2 * r > u then q + 1
                         else if even q then q else q + 1)"
  have m: "2 ^ 53 \<le> q * u" "2 ^ 53 \<le> (q + 1) * u"
    using round_magnitude_large[OF assms] by (simp_all add: q_def u_def)
  have "q' = q \<or> q' = q + 1" by (simp add: q'_def)
  with m have "2 ^ 53 \<le> q' * u" by auto
  moreover have "roundToDouble x = sgn x * (q' * u)"
    using assms by (simp add: roundToDouble_def Let_def q'_def q_def r_def u_def)
  ultimately show ?thesis by blast
qed

lemma roundToDouble_large_pos: "2 ^ 53 \<le> x \<Longrightarrow> 2 ^ 53 \<le> roundToDouble x"
proof -
  assume x: "2 ^ 53 \<le> x"
  then have "2 ^ 53 \<le> \<bar>x\<bar>" by simp
  from roundToDouble_large[OF this] obtain m where m: "2 ^ 53 \<le> m" "roundToDouble x = sgn x * m"
    by blast
  from x have "sgn x = 1" by simp
  with m show ?thesis by simp
qed

lemma roundToDouble_large_neg: "x \<le> - (2 ^ 53) \<Longrightarrow> roundToDouble x \<le> - (2 ^ 53)"
proof -
  assume x: "x \<le> - (2 ^ 53)"
  then have "2 ^ 53 \<le> \<bar>x\<bar>" by simp
  from roundToDouble_large[OF this] obtain m where m: "2 ^ 53 \<le> m" "roundToDouble x = sgn x * m"
    by blast
  from x have "sgn x = - 1" by simp
  with m show ?thesis by simp
qed

text \<open>
  Rounding the difference does not change how its day count compares with a notice
  period.
\<close>

lemma round_days_compare:
  assumes "0 \<le> r" "r \<le> 100000000"
  shows "(r \<le> roundToDouble d div 86400000) = (r \<le> d div 86400000)"
proof -
  consider "\<bar>d\<bar> < 2 ^ 53" | "2 ^ 53 \<le> d" | "d \<le> - (2 ^ 53)" by linarith
  then show ?thesis
  proof cases
    case 1
    then show ?thesis by (simp only: roundToDouble_small)
  next
    case 2
    from roundToDouble_large_pos[OF 2] have "2 ^ 53 div 86400000 \<le> roundToDouble d div 86400000"
      by (intro zdiv_mono1) simp_all
    moreover from 2 have "2 ^ 53 div 86400000 \<le> d div 86400000"
      by (intro zdiv_mono1) simp_all
    moreover have "(2::int) ^ 53 div 86400000 = 104249991" by simp
    ultimately show ?thesis using assms by linarith
  next
    case 3
    from roundToDouble_large_neg[OF 3] have "roundToDouble d div 86400000 \<le> - (2 ^ 53) div 86400000"
      by (intro zdiv_mono1) simp_all
    moreover from 3 have "d div 86400000 \<le> - (2 ^ 53) div 86400000"
      by (intro zdiv_mono1) simp_all
    moreover have "- ((2::int) ^ 53) div 86400000 = - 104249992" by simp
    ultimately show ?thesis using assms by linarith
  qed
qed

section \<open>Pending charges\<close>

text \<open>
  The Tennessee analyzer stops at pending charges: whatever the other fields, the charge
  type and the outcome are, the verdict is the initial record with status
  \<open>ineligible\<close> and the single blocking factor "Pending criminal charges".
\<close>

lemma assessEligibility_pending_charges:
  "hasPendingCharges s \<Longrightarrow>
   assessEligibility now s ct oc =
     initialEligibility\<lparr>status := ''ineligible'', blockingFactors := [pendingChargesFactor]\<rparr>"
  by (simp add: assessEligibility_def)

text \<open>The multi-state evaluator returns the same analysis whatever the flag is.\<close>

lemma analyzeTNEligibility_ignores_pending_charges:
  "analyzeTNEligibility (sd\<lparr>ss_hasPendingCharges := b\<rparr>) cx a = analyzeTNEligibility sd cx a"
proof -
  have d: "ss_diversionType (sd\<lparr>ss_hasPendingCharges := b\<rparr>) = ss_diversionType sd"
    by simp
  show ?thesis
    unfolding analyzeTNEligibility_def d by (rule refl)
qed

lemma analyzeEligibility_ignores_pending_charges:
  "analyzeEligibility now av st (sd\<lparr>ss_hasPendingCharges := b\<rparr>) = analyzeEligibility now av st sd"
proof -
  have d: "ss_outcome (sd\<lparr>ss_hasPendingCharges := b\<rparr>) = ss_outcome sd"
    "ss_chargeType (sd\<lparr>ss_hasPendingCharges := b\<rparr>) = ss_chargeType sd"
    "ss_sentenceCompletionDate (sd\<lparr>ss_hasPendingCharges := b\<rparr>) = ss_sentenceCompletionDate sd"
    "ss_convictionDate (sd\<lparr>ss_hasPendingCharges := b\<rparr>) = ss_convictionDate sd"
    by simp_all
  show ?thesis
    unfolding analyzeEligibility_def d analyzeTNEligibility_ignores_pending_charges by (rule refl)
qed

text \<open>
  Claim C1: every criminal-relief input with \<open>hasPendingCharges = true\<close> is evaluated to
  status \<open>ineligible\<close> with a pending-charges blocking factor, whatever its other fields.

  The Tennessee analyzer does so. The multi-state evaluator does not: for Tennessee, with
  the charges dismissed and pending charges reported, it answers \<open>eligible\<close> with no
  blocking factor.
\<close>

theorem pending_charges_multi_state_eligible:
  "ss_hasPendingCharges pendingButDismissed \<and>
   verdictStatus (analyzeEligibility 0 allAvailable ''TN'' pendingButDismissed) = Some ''eligible'' \<and>
   verdictFactors (analyzeEligibility 0 allAvailable ''TN'' pendingButDismissed) = Some []"
  by code_simp

section \<open>Improper notice\<close>

lemma mapProcedureDefense_id: "d_id (mapProcedureDefense p data) = pd_id p"
  by (simp add: mapProcedureDefense_def Let_def)

lemma mapProcedureDefense_improper:
  "pd_id p \<in> {''improper_notice'', ''improper_notice_30'', ''improper_termination_notice'',
              ''improper_3_day_notice''} \<Longrightarrow>
   d_strength (mapProcedureDefense p data) =
     (if isTrue (noticeReceived data) then Potential else Strong)"
  by (auto simp: mapProcedureDefense_def Let_def)

lemma identifyDefenses_elements:
  "d \<in> set (identifyDefenses data et) \<Longrightarrow>
   (\<exists>p. d = mapProcedureDefense p data) \<or> d = partialPaymentDefense \<or> d = selfHelpDefense"
  by (auto simp: identifyDefenses_def addUniversalDefenses_def Let_def split: if_splits)

text \<open>
  Claim C2, as the code has it: in the defense list, an improper-notice defense (one of
  the four improper-notice ids of the procedure data) is rated \<open>strong\<close> exactly when
  \<open>noticeReceived\<close> is neither \<open>true\<close> nor \<open>'true'\<close>, and the list is the same whatever
  the notice and filing dates are. The notice-period check does not reach the defenses.
\<close>

theorem improper_notice_strength:
  "(\<forall>d\<in>set (identifyDefenses data et).
      d_id d \<in> {''improper_notice'', ''improper_notice_30'', ''improper_termination_notice'',
                ''improper_3_day_notice''} \<longrightarrow>
      (d_strength d = Strong \<longleftrightarrow> \<not> isTrue (noticeReceived data))) \<and>
   identifyDefenses (data\<lparr>noticeDate := n, filingDate := f\<rparr>) et = identifyDefenses data et"
proof -
  have a: "d_strength d = Strong \<longleftrightarrow> \<not> isTrue (noticeReceived data)"
    if d: "d \<in> set (identifyDefenses data et)"
      and i: "d_id d \<in> {''improper_notice'', ''improper_notice_30'',
                ''improper_termination_notice'', ''improper_3_day_notice''}" for d
  proof -
    from identifyDefenses_elements[OF d] consider
      p where "d = mapProcedureDefense p data" | "d = partialPaymentDefense" | "d = selfHelpDefense"
      by blast
    then show ?thesis
    proof cases
      case 1
      with i have "pd_id p \<in> {''improper_notice'', ''improper_notice_30'',
                ''improper_termination_notice'', ''improper_3_day_notice''}"
        by (simp only: mapProcedureDefense_id)
      from mapProcedureDefense_improper[OF this, of data] 1 show ?thesis by simp
    next
      case 2
      with i show ?thesis by (simp add: partialPaymentDefense_def)
    next
      case 3
      with i show ?thesis by (simp add: selfHelpDefense_def)
    qed
  qed
  have m: "\<And>p. mapProcedureDefense p (data\<lparr>noticeDate := n, filingDate := f\<rparr>) = mapProcedureDefense p data"
    by (simp add: mapProcedureDefense_def Let_def)
  have b: "identifyDefenses (data\<lparr>noticeDate := n, filingDate := f\<rparr>) et = identifyDefenses data et"
    by (simp add: identifyDefenses_def addUniversalDefenses_def m Let_def)
  from a b show ?thesis by blast
qed

theorem improper_notice_strength_witness:
  "mapProcedureDefense improperNoticeOption shortNotice \<in>
     set (identifyDefenses shortNotice (determineEvictionType sampleStrategies shortNotice)) \<and>
   d_id (mapProcedureDefense improperNoticeOption shortNotice) = ''improper_notice'' \<and>
   isTrue (noticeReceived shortNotice) \<and>
   d_strength (mapProcedureDefense improperNoticeOption shortNotice) \<noteq> Strong"
proof -
  have m: "mapProcedureDefense improperNoticeOption shortNotice \<in>
     set (identifyDefenses shortNotice (determineEvictionType sampleStrategies shortNotice))"
    by code_simp
  have i: "d_id (mapProcedureDefense improperNoticeOption shortNotice) = ''improper_notice''"
    by (simp add: mapProcedureDefense_id improperNoticeOption_def)
  have r: "isTrue (noticeReceived shortNotice)"
    by (simp add: shortNotice_def isTrue_def)
  from improper_notice_strength[of shortNotice "determineEvictionType sampleStrategies shortNotice"] m i r
  have "d_strength (mapProcedureDefense improperNoticeOption shortNotice) \<noteq> Strong"
    by blast
  with m i r show ?thesis by blast
qed

text \<open>
  The claim as stated fails: non-payment, the notice received, the detainer filed ten
  days after the notice where fourteen are required. The timeline is not compliant, and
  the only defense is the improper-notice one, rated \<open>potential\<close>.
\<close>

theorem improper_notice_counterexample:
  "\<not> compliant (analyzeTimeline 0 sampleStrategies shortNotice) \<and>
   map d_id (defenses (analyzeSituation 0 sampleStrategies shortNotice)) = [''improper_notice''] \<and>
   map d_strength (defenses (analyzeSituation 0 sampleStrategies shortNotice)) = [Potential]"
  by code_simp

section \<open>Years elapsed\<close>

text \<open>
  Claim C3, as the code has it: for a date that parses, \<open>calculateYearsSince\<close> is the
  floor of the elapsed milliseconds over 365.25 days (\<open>31557600000\<close> ms), which is at
  least \<open>0\<close> exactly when the date is not after the clock reading; for no date it is
  \<open>0\<close>. The Tennessee analyzer's waiting-period check does not round: it is met exactly
  when the elapsed milliseconds reach 5 (felony) or 1 (otherwise) times 365 days.
\<close>

theorem years_elapsed_floor:
  "calculateYearsSince now (Date t) = Num ((now - t) div 31557600000) \<and>
   (js_ge (calculateYearsSince now (Date t)) 0 \<longleftrightarrow> t \<le> now) \<and>
   calculateYearsSince now NoDate = Num 0 \<and>
   (sentenceCompletionDate s = Date t \<longrightarrow>
      (wp_met (checkWaitingPeriod now s ct) \<longleftrightarrow>
         (if ct_category ct = Felony then 5 else 1) * 31536000000 \<le> now - t))"
proof -
  have a: "calculateYearsSince now (Date t) = Num ((now - t) div 31557600000)"
    by (rule calculateYearsSince_Date)
  have b: "js_ge (calculateYearsSince now (Date t)) 0 \<longleftrightarrow> t \<le> now"
    by (simp add: a pos_imp_zdiv_nonneg_iff)
  have c: "calculateYearsSince now NoDate = Num 0"
    by (simp add: calculateYearsSince_def)
  have d: "sentenceCompletionDate s = Date t \<longrightarrow>
      (wp_met (checkWaitingPeriod now s ct) \<longleftrightarrow>
         (if ct_category ct = Felony then 5 else 1) * 31536000000 \<le> now - t)"
    by (simp add: checkWaitingPeriod_def truthyDate_def yearsAtLeast_5 yearsAtLeast_1)
  from a b c d show ?thesis by blast
qed

theorem years_elapsed_floor_witness:
  "sentenceCompletionDate convictedLongAgo = Date 0 \<and>
   wp_met (checkWaitingPeriod 31536000000 convictedLongAgo (determineChargeType convictedLongAgo)) \<and>
   \<not> wp_met (checkWaitingPeriod 31535999999 convictedLongAgo (determineChargeType convictedLongAgo))"
proof -
  have h: "sentenceCompletionDate convictedLongAgo = Date 0"
    by (simp add: convictedLongAgo_def)
  have m: "ct_category (determineChargeType convictedLongAgo) = Misdemeanor"
    by code_simp
  from years_elapsed_floor[of 31536000000 0 convictedLongAgo "determineChargeType convictedLongAgo"] h m
  have p: "wp_met (checkWaitingPeriod 31536000000 convictedLongAgo (determineChargeType convictedLongAgo))"
    by simp
  from years_elapsed_floor[of 31535999999 0 convictedLongAgo "determineChargeType convictedLongAgo"] h m
  have q: "\<not> wp_met (checkWaitingPeriod 31535999999 convictedLongAgo (determineChargeType convictedLongAgo))"
    by simp
  from h p q show ?thesis by blast
qed

text \<open>
  The claim as stated fails: a date one millisecond after the clock reading gives
  \<open>-1\<close> years.
\<close>

theorem years_elapsed_future_counterexample:
  "calculateYearsSince 0 (Date 1) = Num (- 1) \<and> \<not> js_ge (calculateYearsSince 0 (Date 1)) 0"
  by (simp add: calculateYearsSince_Date)

section \<open>Procedure lookup\<close>

text \<open>
  Without a procedures table in the data file, the unguarded lookup of
  \<open>determineProcedure\<close> raises a \<open>TypeError\<close>, whatever the outcome is.
\<close>

lemma determineProcedure_without_table: "determineProcedure None oc ct = Inl TypeError"
  by (simp add: determineProcedure_def)

lemma entryOrNull_None: "entryOrNull v = None \<longleftrightarrow> v = None \<or> v = Some Falsy"
  by (simp add: entryOrNull_def split: option.splits entry.splits)

text \<open>
  Claim C4, as the code has it: there is no \<open>PolicyIntegrityError\<close>. With the procedures
  table present, the lookup returns a result for every outcome: an outcome with no entry
  in the outcome-to-procedure map (pending diversion, unknown) reads the table at the key
  \<open>general\<close>, an outcome with an entry reads the table at that key, and the packet
  generator reads the table at the analysis's procedure key. An entry that is missing or
  falsy gives \<open>null\<close>, and so does the packet generator's guarded lookup when the table
  is missing.
\<close>

theorem procedure_lookup_total:
  "(procs = Some table \<longrightarrow>
      determineProcedure procs oc ct =
        Inr (entryOrNull (table (case proceduresMap ct oc of None \<Rightarrow> ''general'' | Some k \<Rightarrow> k))) \<and>
      procedureDetails procs (Inr a) =
        entryOrNull (table (case applicableProcedure a of None \<Rightarrow> ''null'' | Some k \<Rightarrow> k))) \<and>
   (proceduresMap ct oc = None \<longleftrightarrow> oc = DiversionPending \<or> oc = UnknownOutcome) \<and>
   (oc = Dismissed \<or> oc = Acquitted \<longrightarrow> proceduresMap ct oc = Some ''dismissedCharges'') \<and>
   (oc = DiversionCompleted \<longrightarrow> proceduresMap ct oc = Some ''judicialDiversion'') \<and>
   (oc = Convicted \<longrightarrow> proceduresMap ct oc =
      Some (if ct_category ct = Felony then ''felonyConviction'' else ''misdemeanorConviction'')) \<and>
   (entryOrNull v = None \<longleftrightarrow> v = None \<or> v = Some Falsy) \<and>
   procedureDetails None r = None"
proof -
  have a: "procs = Some table \<longrightarrow>
      determineProcedure procs oc ct =
        Inr (entryOrNull (table (case proceduresMap ct oc of None \<Rightarrow> ''general'' | Some k \<Rightarrow> k))) \<and>
      procedureDetails procs (Inr a) =
        entryOrNull (table (case applicableProcedure a of None \<Rightarrow> ''null'' | Some k \<Rightarrow> k))"
    by (simp add: determineProcedure_def procedureDetails_def)
  have b1: "proceduresMap ct oc = None \<longleftrightarrow> oc = DiversionPending \<or> oc = UnknownOutcome"
    by (cases oc) (simp_all add: proceduresMap_def)
  have b2: "oc = Dismissed \<or> oc = Acquitted \<longrightarrow> proceduresMap ct oc = Some ''dismissedCharges''"
    by (cases oc) (simp_all add: proceduresMap_def)
  have b3: "oc = DiversionCompleted \<longrightarrow> proceduresMap ct oc = Some ''judicialDiversion''"
    by (cases oc) (simp_all add: proceduresMap_def)
  have b4: "oc = Convicted \<longrightarrow> proceduresMap ct oc =
      Some (if ct_category ct = Felony then ''felonyConviction'' else ''misdemeanorConviction'')"
    by (cases oc) (simp_all add: proceduresMap_def)
  have c: "procedureDetails None r = None"
    by (simp add: procedureDetails_def)
  have e: "entryOrNull v = None \<longleftrightarrow> v = None \<or> v = Some Falsy"
    by (rule entryOrNull_None)
  show ?thesis
    by (intro conjI a b1 b2 b3 b4 e c)
qed

theorem procedure_lookup_total_witness:
  "determineProcedure (Some generalOnly) Convicted felonyInfo = Inr None \<and>
   determineProcedure (Some generalOnly) DiversionPending felonyInfo =
     Inr (Some ''General expungement procedure'') \<and>
   procedureDetails (Some generalOnly) (Inr dismissedProcedure) =
     Some ''General expungement procedure''"
proof -
  have t: "Some generalOnly = Some generalOnly" by simp
  have k1: "proceduresMap felonyInfo Convicted = Some ''felonyConviction''"
    by (simp add: proceduresMap_def felonyInfo_def)
  have k2: "proceduresMap felonyInfo DiversionPending = None"
    by (simp add: proceduresMap_def)
  have k3: "applicableProcedure dismissedProcedure = Some ''general''"
    by (simp add: dismissedProcedure_def setProcedure_def)
  have e1: "entryOrNull (generalOnly ''felonyConviction'') = None"
    by (simp add: generalOnly_def entryOrNull_def)
  have e2: "entryOrNull (generalOnly ''general'') = Some ''General expungement procedure''"
    by (simp add: generalOnly_def entryOrNull_def)
  from procedure_lookup_total[of "Some generalOnly" generalOnly Convicted felonyInfo dismissedProcedure
         "None :: string entry option" "Inr dismissedProcedure"] t
  have r1: "determineProcedure (Some generalOnly) Convicted felonyInfo =
              Inr (entryOrNull (generalOnly ''felonyConviction''))"
    and r3: "procedureDetails (Some generalOnly) (Inr dismissedProcedure) =
              entryOrNull (generalOnly ''general'')"
    by (auto simp: k1 k3)
  from procedure_lookup_total[of "Some generalOnly" generalOnly DiversionPending felonyInfo
         dismissedProcedure "None :: string entry option" "Inr dismissedProcedure"] t
  have r2: "determineProcedure (Some generalOnly) DiversionPending felonyInfo =
              Inr (entryOrNull (generalOnly ''general''))"
    by (auto simp: k2)
  from r1 r2 r3 e1 e2 show ?thesis by simp
qed

text \<open>
  The claim as stated fails: the outcome \<open>unknown\<close> has no entry in the map, and the
  lookup returns the \<open>general\<close> procedure; a conviction whose key the table lacks gives
  \<open>null\<close>. Neither raises an error.
\<close>

theorem procedure_default_counterexample:
  "proceduresMap felonyInfo UnknownOutcome = None \<and>
   determineProcedure (Some generalOnly) UnknownOutcome felonyInfo =
     Inr (Some ''General expungement procedure'') \<and>
   determineProcedure (Some emptyTable) Convicted felonyInfo = Inr None"
  by (simp add: proceduresMap_def determineProcedure_def generalOnly_def emptyTable_def
        felonyInfo_def entryOrNull_def)

section \<open>Classifier\<close>

lemma classify_first:
  assumes "i < length rules" "ruleMatches d (rules ! i)" "\<forall>j<i. \<not> ruleMatches d (rules ! j)"
  shows "classifyFirstMatch rules dflt d = snd (rules ! i)"
proof -
  have "find (ruleMatches d) rules = Some (rules ! i)"
    using assms by (auto simp: find_Some_iff)
  then show ?thesis by (simp add: classifyFirstMatch_def)
qed

lemma classify_default:
  assumes "\<forall>r\<in>set rules. \<not> ruleMatches d r"
  shows "classifyFirstMatch rules dflt d = dflt"
proof -
  have "find (ruleMatches d) rules = None"
    using assms by (auto simp: find_None_iff)
  then show ?thesis by (simp add: classifyFirstMatch_def)
qed

lemma determineEvictionType_classify:
  "et_type (determineEvictionType ds data) =
     classifyFirstMatch evictionRules ''nonpayment'' (evictionReason data)"
  by (simp add: determineEvictionType_def classifyFirstMatch_def evictionRules_def
        ruleMatches_def str_includes_sublist Let_def)

lemma evictionTypeForState_classify:
  "st_type (evictionTypeForState r1 r2 config) =
     classifyFirstMatch stateEvictionRules ''nonpayment'' (orElse r1 r2)"
  by (simp add: evictionTypeForState_def determineEvictionType_state_def classifyFirstMatch_def
        stateEvictionRules_def ruleMatches_def str_includes_sublist)

text \<open>
  Claim C5: the classifier returns the category of the first rule, in the order of the
  rule list, one of whose keywords occurs in the lower-cased description; where two
  rules match, the earlier one decides; where none matches, the answer is the default
  category \<open>nonpayment\<close>. Both classifiers (the Tennessee analyzer's and the multi-state
  generator's) are the first-match classifier over their rule lists, and they are total:
  no description raises an error.
\<close>

theorem classifier_first_match:
  "et_type (determineEvictionType ds data) =
     classifyFirstMatch evictionRules ''nonpayment'' (evictionReason data) \<and>
   st_type (evictionTypeForState r1 r2 config) =
     classifyFirstMatch stateEvictionRules ''nonpayment'' (orElse r1 r2) \<and>
   (\<forall>i. i < length evictionRules \<longrightarrow> ruleMatches (evictionReason data) (evictionRules ! i) \<longrightarrow>
        (\<forall>j<i. \<not> ruleMatches (evictionReason data) (evictionRules ! j)) \<longrightarrow>
        et_type (determineEvictionType ds data) = snd (evictionRules ! i)) \<and>
   ((\<forall>r\<in>set evictionRules. \<not> ruleMatches (evictionReason data) r) \<longrightarrow>
        et_type (determineEvictionType ds data) = ''nonpayment'') \<and>
   (\<forall>i. i < length stateEvictionRules \<longrightarrow> ruleMatches (orElse r1 r2) (stateEvictionRules ! i) \<longrightarrow>
        (\<forall>j<i. \<not> ruleMatches (orElse r1 r2) (stateEvictionRules ! j)) \<longrightarrow>
        st_type (evictionTypeForState r1 r2 config) = snd (stateEvictionRules ! i)) \<and>
   ((\<forall>r\<in>set stateEvictionRules. \<not> ruleMatches (orElse r1 r2) r) \<longrightarrow>
        st_type (evictionTypeForState r1 r2 config) = ''nonpayment'')"
  using classify_first[of _ evictionRules "evictionReason data" "''nonpayment''"]
        classify_default[of evictionRules "evictionReason data" "''nonpayment''"]
        classify_first[of _ stateEvictionRules "orElse r1 r2" "''nonpayment''"]
        classify_default[of stateEvictionRules "orElse r1 r2" "''nonpayment''"]
  by (simp only: determineEvictionType_classify evictionTypeForState_classify) blast

theorem classifier_first_match_witness:
  "ruleMatches (evictionReason rentAndViolation) (evictionRules ! 0) \<and>
   ruleMatches (evictionReason rentAndViolation) (evictionRules ! 1) \<and>
   et_type (determineEvictionType noStrategies rentAndViolation) = ''nonpayment'' \<and>
   list_all (\<lambda>r. \<not> ruleMatches (evictionReason blankData) r) evictionRules \<and>
   et_type (determineEvictionType noStrategies blankData) = ''nonpayment''"
proof -
  have m0: "ruleMatches (evictionReason rentAndViolation) (evictionRules ! 0)"
    by code_simp
  have m1: "ruleMatches (evictionReason rentAndViolation) (evictionRules ! 1)"
    by code_simp
  have l: "(0::nat) < length evictionRules"
    by (simp add: evictionRules_def)
  have s: "snd (evictionRules ! 0) = ''nonpayment''"
    by (simp add: evictionRules_def)
  have n: "\<forall>r\<in>set evictionRules. \<not> ruleMatches (evictionReason blankData) r"
    by code_simp
  from classifier_first_match[of noStrategies rentAndViolation] l m0
  have "et_type (determineEvictionType noStrategies rentAndViolation) = snd (evictionRules ! 0)"
    by blast
  then have r: "et_type (determineEvictionType noStrategies rentAndViolation) = ''nonpayment''"
    by (simp only: s)
  from classifier_first_match[of noStrategies blankData] n
  have d: "et_type (determineEvictionType noStrategies blankData) = ''nonpayment''"
    by blast
  from n have "list_all (\<lambda>r. \<not> ruleMatches (evictionReason blankData) r) evictionRules"
    by (simp only: list_all_iff)
  with m0 m1 r d show ?thesis by blast
qed

section \<open>Notice compliance\<close>

lemma compliant_checkCourt: "compliant (checkCourt now a) = compliant a"
  by (simp add: checkCourt_def Let_def)

lemma compliant_checkAppeal: "compliant (checkAppeal now data a) = compliant a"
  by (simp add: checkAppeal_def Let_def)

lemma issues_checkCourt:
  "\<exists>extra. issues (checkCourt now a) = issues a @ extra \<and>
     (\<forall>i\<in>set extra. i_type i \<in> {''past_court_date'', ''urgent_court_date'', ''upcoming_court_date''})"
  by (simp add: checkCourt_def Let_def mkIssue_def)

lemma issues_checkAppeal:
  "\<exists>extra. issues (checkAppeal now data a) = issues a @ extra \<and>
     (\<forall>i\<in>set extra. i_type i \<in> {''appeal_deadline'', ''appeal_deadline_passed''})"
  by (simp add: checkAppeal_def Let_def mkIssue_def)

lemma details_checkCourt_notice:
  "daysBetweenNoticeAndFiling (details (checkCourt now a)) = daysBetweenNoticeAndFiling (details a)"
  "requiredDays (details (checkCourt now a)) = requiredDays (details a)"
  by (simp_all add: checkCourt_def Let_def)

lemma details_checkAppeal_notice:
  "daysBetweenNoticeAndFiling (details (checkAppeal now data a)) = daysBetweenNoticeAndFiling (details a)"
  "requiredDays (details (checkAppeal now data a)) = requiredDays (details a)"
  by (simp_all add: checkAppeal_def Let_def)

lemma checkNotice_dates:
  assumes "ta_noticeDate a = Date n" "ta_filingDate a = Date f"
  shows "compliant (checkNotice et a) =
           (compliant a \<and> noticeRequired et \<le> roundToDouble (f - n) div 86400000)"
    and "issues (checkNotice et a) =
           issues a @ (if noticeRequired et \<le> roundToDouble (f - n) div 86400000 then []
                       else [insufficientNotice])"
    and "daysBetweenNoticeAndFiling (details (checkNotice et a)) =
           Some (Num (roundToDouble (f - n) div 86400000))"
    and "requiredDays (details (checkNotice et a)) = Some (noticeRequired et)"
  using assms
  by (auto simp: checkNotice_def truthyDate_def floorDays_Num Let_def simp del: floorDays.simps)

lemma checkNotice_unparseable:
  assumes "ta_noticeDate a = BadDate \<or> ta_filingDate a = BadDate"
  shows "compliant (checkNotice et a) = compliant a"
    and "issues (checkNotice et a) = issues a"
proof -
  have "dateDiff (getTime (ta_filingDate a)) (getTime (ta_noticeDate a)) = NaN"
    using assms by (cases "ta_filingDate a"; cases "ta_noticeDate a") simp_all
  then show "compliant (checkNotice et a) = compliant a"
    and "issues (checkNotice et a) = issues a"
    by (simp_all add: checkNotice_def Let_def)
qed

lemma noticeRequired_values:
  "noticeRequired (determineEvictionType ds data) \<in> {3, 14, 30}"
  by (simp add: determineEvictionType_def Let_def)

text \<open>What the timeline keeps of the notice check, for every input.\<close>

lemma timeline_notice_part:
  fixes now ds data
  defines "a1 \<equiv> checkNotice (determineEvictionType ds data)
       \<lparr>noticeGiven = isTrue (noticeReceived data), ta_noticeDate = noticeDate data,
        ta_noticeType = orElse (noticeType data) ''unknown'', ta_courtDate = courtDate data,
        ta_filingDate = filingDate data, issues = [], compliant = True, details = noDetails\<rparr>"
  shows "compliant (analyzeTimeline now ds data) = compliant a1"
    and "insufficientNotice \<in> set (issues (analyzeTimeline now ds data)) \<longleftrightarrow>
         insufficientNotice \<in> set (issues a1)"
    and "daysBetweenNoticeAndFiling (details (analyzeTimeline now ds data)) =
         daysBetweenNoticeAndFiling (details a1)"
proof -
  have tl: "analyzeTimeline now ds data = checkAppeal now data (checkCourt now a1)"
    by (simp add: analyzeTimeline_def a1_def Let_def)
  show "compliant (analyzeTimeline now ds data) = compliant a1"
    by (simp add: tl compliant_checkAppeal compliant_checkCourt)
  obtain e1 where e1: "issues (checkCourt now a1) = issues a1 @ e1"
    "\<forall>i\<in>set e1. i_type i \<in> {''past_court_date'', ''urgent_court_date'', ''upcoming_court_date''}"
    using issues_checkCourt[of now a1] by blast
  obtain e2 where e2: "issues (checkAppeal now data (checkCourt now a1)) = issues (checkCourt now a1) @ e2"
    "\<forall>i\<in>set e2. i_type i \<in> {''appeal_deadline'', ''appeal_deadline_passed''}"
    using issues_checkAppeal[of now data "checkCourt now a1"] by blast
  have n1: "insufficientNotice \<notin> set e1"
    using e1(2) by (auto simp: insufficientNotice_def)
  have n2: "insufficientNotice \<notin> set e2"
    using e2(2) by (auto simp: insufficientNotice_def)
  show "insufficientNotice \<in> set (issues (analyzeTimeline now ds data)) \<longleftrightarrow>
         insufficientNotice \<in> set (issues a1)"
    using n1 n2 by (simp add: tl e2(1) e1(1))
  show "daysBetweenNoticeAndFiling (details (analyzeTimeline now ds data)) =
         daysBetweenNoticeAndFiling (details a1)"
    by (simp add: tl details_checkAppeal_notice details_checkCourt_notice)
qed

lemma notice_parsed_dates:
  assumes "noticeDate data = Date n" and "filingDate data = Date f"
  shows "compliant (analyzeTimeline now ds data) \<longleftrightarrow>
            noticeRequired (determineEvictionType ds data) \<le> (f - n) div 86400000"
    and "insufficientNotice \<in> set (issues (analyzeTimeline now ds data)) \<longleftrightarrow>
            (f - n) div 86400000 < noticeRequired (determineEvictionType ds data)"
    and "daysBetweenNoticeAndFiling (details (analyzeTimeline now ds data)) =
            Some (Num (roundToDouble (f - n) div 86400000))"
proof -
  have r: "0 \<le> noticeRequired (determineEvictionType ds data)"
    "noticeRequired (determineEvictionType ds data) \<le> 100000000"
    using noticeRequired_values[of ds data] by auto
  note cmp = round_days_compare[OF r, of "f - n"]
  show "compliant (analyzeTimeline now ds data) \<longleftrightarrow>
            noticeRequired (determineEvictionType ds data) \<le> (f - n) div 86400000"
    using assms by (simp add: timeline_notice_part(1) checkNotice_dates(1) cmp)
  show "insufficientNotice \<in> set (issues (analyzeTimeline now ds data)) \<longleftrightarrow>
            (f - n) div 86400000 < noticeRequired (determineEvictionType ds data)"
    using assms by (simp add: timeline_notice_part(2) checkNotice_dates(2) cmp not_le)
  show "daysBetweenNoticeAndFiling (details (analyzeTimeline now ds data)) =
            Some (Num (roundToDouble (f - n) div 86400000))"
    using assms by (simp add: timeline_notice_part(3) checkNotice_dates(3))
qed

lemma notice_unparseable_date:
  assumes "noticeDate data = BadDate \<or> filingDate data = BadDate"
  shows "compliant (analyzeTimeline now ds data)"
    and "insufficientNotice \<notin> set (issues (analyzeTimeline now ds data))"
  using assms
  by (simp_all add: timeline_notice_part(1,2) checkNotice_unparseable)

text \<open>
  Claim C6, as the code has it: for a notice date and a filing date that both parse, the
  timeline is compliant exactly when the whole-day difference, filing minus notice, is at
  least the notice period of the eviction type, and the insufficient-notice issue is
  recorded exactly when it is less; a difference equal to the required days is compliant
  with no violation, and a difference one day short is a violation with
  \<open>compliant = false\<close>. The day count recorded is that of the difference as a double, which
  is the whole-day difference for dates less than \<open>2^53\<close> ms apart. A date that is
  present but does not parse gives no violation: the timeline stays compliant.
\<close>

theorem notice_compliance_boundary:
  "(noticeDate data = Date n \<and> filingDate data = Date f \<longrightarrow>
      (compliant (analyzeTimeline now ds data) \<longleftrightarrow>
         noticeRequired (determineEvictionType ds data) \<le> (f - n) div 86400000) \<and>
      (insufficientNotice \<in> set (issues (analyzeTimeline now ds data)) \<longleftrightarrow>
         (f - n) div 86400000 < noticeRequired (determineEvictionType ds data)) \<and>
      daysBetweenNoticeAndFiling (details (analyzeTimeline now ds data)) =
         Some (Num (roundToDouble (f - n) div 86400000)) \<and>
      (\<bar>f - n\<bar> < 2 ^ 53 \<longrightarrow>
         daysBetweenNoticeAndFiling (details (analyzeTimeline now ds data)) =
           Some (Num ((f - n) div 86400000))) \<and>
      ((f - n) div 86400000 = noticeRequired (determineEvictionType ds data) \<longrightarrow>
         compliant (analyzeTimeline now ds data) \<and>
         insufficientNotice \<notin> set (issues (analyzeTimeline now ds data))) \<and>
      ((f - n) div 86400000 = noticeRequired (determineEvictionType ds data) - 1 \<longrightarrow>
         \<not> compliant (analyzeTimeline now ds data) \<and>
         insufficientNotice \<in> set (issues (analyzeTimeline now ds data)))) \<and>
   (noticeDate data = BadDate \<or> filingDate data = BadDate \<longrightarrow>
      compliant (analyzeTimeline now ds data) \<and>
      insufficientNotice \<notin> set (issues (analyzeTimeline now ds data)))"
proof (intro conjI impI)
  assume d: "noticeDate data = Date n \<and> filingDate data = Date f"
  then have dn: "noticeDate data = Date n" and df: "filingDate data = Date f" by simp_all
  note p = notice_parsed_dates[OF dn df, of now ds]
  show "compliant (analyzeTimeline now ds data) \<longleftrightarrow>
         noticeRequired (determineEvictionType ds data) \<le> (f - n) div 86400000"
    by (rule p(1))
  show "insufficientNotice \<in> set (issues (analyzeTimeline now ds data)) \<longleftrightarrow>
         (f - n) div 86400000 < noticeRequired (determineEvictionType ds data)"
    by (rule p(2))
  show "daysBetweenNoticeAndFiling (details (analyzeTimeline now ds data)) =
         Some (Num (roundToDouble (f - n) div 86400000))"
    by (rule p(3))
  show "daysBetweenNoticeAndFiling (details (analyzeTimeline now ds data)) =
           Some (Num ((f - n) div 86400000))" if "\<bar>f - n\<bar> < 2 ^ 53"
    using that by (simp add: p(3) roundToDouble_small)
  show "compliant (analyzeTimeline now ds data)"
    if "(f - n) div 86400000 = noticeRequired (determineEvictionType ds data)"
    using that by (simp add: p(1))
  show "insufficientNotice \<notin> set (issues (analyzeTimeline now ds data))"
    if "(f - n) div 86400000 = noticeRequired (determineEvictionType ds data)"
    using that by (simp add: p(2))
  show "\<not> compliant (analyzeTimeline now ds data)"
    if "(f - n) div 86400000 = noticeRequired (determineEvictionType ds data) - 1"
    using that by (simp add: p(1))
  show "insufficientNotice \<in> set (issues (analyzeTimeline now ds data))"
    if "(f - n) div 86400000 = noticeRequired (determineEvictionType ds data) - 1"
    using that by (simp add: p(2))
next
  assume b: "noticeDate data = BadDate \<or> filingDate data = BadDate"
  show "compliant (analyzeTimeline now ds data)"
    by (rule notice_unparseable_date(1)[OF b])
next
  assume b: "noticeDate data = BadDate \<or> filingDate data = BadDate"
  show "insufficientNotice \<notin> set (issues (analyzeTimeline now ds data))"
    by (rule notice_unparseable_date(2)[OF b])
qed

theorem notice_compliance_boundary_witness:
  "noticeDate filedDay14 = Date 0 \<and> filingDate filedDay14 = Date 1209600000 \<and>
   noticeRequired (determineEvictionType noStrategies filedDay14) = 14 \<and>
   compliant (analyzeTimeline 0 noStrategies filedDay14) \<and>
   insufficientNotice \<notin> set (issues (analyzeTimeline 0 noStrategies filedDay14)) \<and>
   noticeDate filedDay13 = Date 0 \<and> filingDate filedDay13 = Date 1123200000 \<and>
   noticeRequired (determineEvictionType noStrategies filedDay13) = 14 \<and>
   \<not> compliant (analyzeTimeline 0 noStrategies filedDay13) \<and>
   insufficientNotice \<in> set (issues (analyzeTimeline 0 noStrategies filedDay13))"
proof -
  have a: "noticeDate filedDay14 = Date 0 \<and> filingDate filedDay14 = Date 1209600000"
    by (simp add: filedDay14_def)
  have b: "noticeDate filedDay13 = Date 0 \<and> filingDate filedDay13 = Date 1123200000"
    by (simp add: filedDay13_def)
  have ra: "noticeRequired (determineEvictionType noStrategies filedDay14) = 14"
    by code_simp
  have rb: "noticeRequired (determineEvictionType noStrategies filedDay13) = 14"
    by code_simp
  have da: "(1209600000 - 0) div 86400000 = (14::int)" by simp
  have db: "(1123200000 - 0) div 86400000 = (14::int) - 1" by simp
  from notice_compliance_boundary[of filedDay14 0 1209600000 0 noStrategies] a ra da
  have wa: "compliant (analyzeTimeline 0 noStrategies filedDay14) \<and>
            insufficientNotice \<notin> set (issues (analyzeTimeline 0 noStrategies filedDay14))"
    by presburger
  from notice_compliance_boundary[of filedDay13 0 1123200000 0 noStrategies] b rb db
  have wb: "\<not> compliant (analyzeTimeline 0 noStrategies filedDay13) \<and>
            insufficientNotice \<in> set (issues (analyzeTimeline 0 noStrategies filedDay13))"
    by presburger
  from a b ra rb wa wb show ?thesis by blast
qed

text \<open>
  The claim as stated fails: the notice date is present and does not parse. There is no
  whole-day difference (the day count is \<open>NaN\<close>), and the timeline is compliant with no
  issue.
\<close>

theorem notice_unparseable_counterexample:
  "noticeDate unparseableNotice = BadDate \<and> filingDate unparseableNotice = Date 0 \<and>
   daysBetweenNoticeAndFiling (details (analyzeTimeline 0 noStrategies unparseableNotice)) = Some NaN \<and>
   compliant (analyzeTimeline 0 noStrategies unparseableNotice) \<and>
   issues (analyzeTimeline 0 noStrategies unparseableNotice) = []"
  by code_simp

text \<open>
  The earliest valid date and the millisecond before the latest one are
  \<open>17279999999999999\<close> ms apart, \<open>199999999\<close> whole days; the difference as a double is
  \<open>17280000000000000\<close>, and \<open>200000000\<close> days are recorded.
\<close>

lemma notice_far_apart:
  "daysBetweenNoticeAndFiling (details (analyzeTimeline 0 noStrategies farApart)) =
     Some (Num 200000000) \<and>
   (8639999999999999 - (- 8640000000000000)) div 86400000 = (199999999 :: int)"
  by code_simp

section \<open>Defense ordering\<close>

lemma strengthOrder_inj: "strengthOrder a = strengthOrder b \<longleftrightarrow> a = b"
  by (cases a; cases b) simp_all

text \<open>
  Claim C7: the prioritized list is a permutation of the defense list; in it every
  \<open>strong\<close> entry stands before every \<open>moderate\<close> one and every \<open>moderate\<close> entry before
  every \<open>potential\<close> one (the strength ranks never decrease along the list); and the
  entries of each strength keep the order they had in the input.
\<close>

theorem prioritizeDefenses_stable_sort:
  "mset (prioritizeDefenses ds) = mset ds \<and>
   (\<forall>i j. i < j \<longrightarrow> j < length (prioritizeDefenses ds) \<longrightarrow>
      strengthOrder (d_strength (prioritizeDefenses ds ! i)) \<le>
      strengthOrder (d_strength (prioritizeDefenses ds ! j))) \<and>
   (\<forall>s. filter (\<lambda>d. d_strength d = s) (prioritizeDefenses ds) =
        filter (\<lambda>d. d_strength d = s) ds)"
proof -
  have p: "mset (prioritizeDefenses ds) = mset ds"
    by (simp add: prioritizeDefenses_def)
  have "sorted (map (\<lambda>d. strengthOrder (d_strength d)) (prioritizeDefenses ds))"
    by (simp add: prioritizeDefenses_def)
  then have o: "\<forall>i j. i < j \<longrightarrow> j < length (prioritizeDefenses ds) \<longrightarrow>
      strengthOrder (d_strength (prioritizeDefenses ds ! i)) \<le>
      strengthOrder (d_strength (prioritizeDefenses ds ! j))"
    by (auto simp: sorted_iff_nth_mono_less dest: less_imp_le)
  have "\<And>s. filter (\<lambda>d. strengthOrder (d_strength d) = strengthOrder s) (prioritizeDefenses ds)
     = filter (\<lambda>d. strengthOrder (d_strength d) = strengthOrder s) ds"
    unfolding prioritizeDefenses_def by (rule sort_key_stable)
  then have f: "\<forall>s. filter (\<lambda>d. d_strength d = s) (prioritizeDefenses ds) =
        filter (\<lambda>d. d_strength d = s) ds"
    by (simp add: strengthOrder_inj)
  from p o f show ?thesis by blast
qed

theorem prioritizeDefenses_stable_sort_witness:
  "(0::nat) < 3 \<and> 3 < length (prioritizeDefenses sampleDefenses) \<and>
   strengthOrder (d_strength (prioritizeDefenses sampleDefenses ! 0)) \<le>
   strengthOrder (d_strength (prioritizeDefenses sampleDefenses ! 3)) \<and>
   map d_id (prioritizeDefenses sampleDefenses) = [''b'', ''d'', ''c'', ''a'']"
proof -
  have l: "3 < length (prioritizeDefenses sampleDefenses)"
    by code_simp
  have e: "map d_id (prioritizeDefenses sampleDefenses) = [''b'', ''d'', ''c'', ''a'']"
    by code_simp
  from prioritizeDefenses_stable_sort[of sampleDefenses] l
  have "strengthOrder (d_strength (prioritizeDefenses sampleDefenses ! 0)) \<le>
        strengthOrder (d_strength (prioritizeDefenses sampleDefenses ! 3))"
    by (metis zero_less_numeral)
  with l e show ?thesis by simp
qed

section \<open>Appeal window\<close>

lemma details_checkAppeal_flagged:
  assumes "isTrue (judgmentReceived data)"
  shows "daysSinceJudgment (details (checkAppeal now data a)) =
           Some (floorDays (js_sub (Num now)
             (if truthyDate (judgmentDate data) then getTime (judgmentDate data) else Num now)))"
    and "daysLeftToAppeal (details (checkAppeal now data a)) =
           Some (js_max0 (js_sub (Num 10) (floorDays (js_sub (Num now)
             (if truthyDate (judgmentDate data) then getTime (judgmentDate data) else Num now)))))"
    and "issues (checkAppeal now data a) = issues a @
           [if js_gt (js_max0 (js_sub (Num 10) (floorDays (js_sub (Num now)
                (if truthyDate (judgmentDate data) then getTime (judgmentDate data) else Num now))))) 0
            then mkIssue ''appeal_deadline'' ''critical''
            else mkIssue ''appeal_deadline_passed'' ''critical'']"
  using assms by (simp_all add: checkAppeal_def Let_def del: floorDays.simps)

lemma issues_before_appeal:
  "i \<in> set (issues (checkCourt now (checkNotice et
       \<lparr>noticeGiven = g, ta_noticeDate = nd, ta_noticeType = nt, ta_courtDate = cd,
        ta_filingDate = fd, issues = [], compliant = True, details = noDetails\<rparr>))) \<Longrightarrow>
   i_type i \<in> {''insufficient_notice'', ''past_court_date'', ''urgent_court_date'',
               ''upcoming_court_date''}"
  by (auto simp: checkCourt_def checkNotice_def Let_def mkIssue_def insufficientNotice_def
      split: if_splits)

text \<open>
  Claim C8, as the code has it: the appeal window is computed when \<open>judgmentReceived\<close> is
  \<open>true\<close> or \<open>'true'\<close>. Then, for a judgment date that parses, the days left are
  \<open>max(0, 10 - daysSinceJudgment)\<close>, ten being Tennessee's appeal period; at zero the
  issue \<open>appeal_deadline_passed\<close> is recorded and \<open>appeal_deadline\<close> is not, above zero
  the other way round. Without a judgment date the judgment is dated at the clock
  reading, and ten days are left.
\<close>

theorem appeal_window_remaining:
  assumes "isTrue (judgmentReceived data)"
  shows "(\<forall>j. judgmentDate data = Date j \<longrightarrow>
            daysSinceJudgment (details (analyzeTimeline now ds data)) =
              Some (Num ((now - j) div 86400000)) \<and>
            daysLeftToAppeal (details (analyzeTimeline now ds data)) =
              Some (Num (max 0 (10 - (now - j) div 86400000))) \<and>
            (max 0 (10 - (now - j) div 86400000) = 0 \<longrightarrow>
               mkIssue ''appeal_deadline_passed'' ''critical'' \<in> set (issues (analyzeTimeline now ds data)) \<and>
               mkIssue ''appeal_deadline'' ''critical'' \<notin> set (issues (analyzeTimeline now ds data))) \<and>
            (max 0 (10 - (now - j) div 86400000) > 0 \<longrightarrow>
               mkIssue ''appeal_deadline'' ''critical'' \<in> set (issues (analyzeTimeline now ds data)) \<and>
               mkIssue ''appeal_deadline_passed'' ''critical'' \<notin> set (issues (analyzeTimeline now ds data)))) \<and>
         (judgmentDate data = NoDate \<longrightarrow>
            daysLeftToAppeal (details (analyzeTimeline now ds data)) = Some (Num 10) \<and>
            mkIssue ''appeal_deadline'' ''critical'' \<in> set (issues (analyzeTimeline now ds data))) \<and>
         sc_appealDays config_tn = 10"
proof -
  define a2 where "a2 = checkCourt now (checkNotice (determineEvictionType ds data)
       \<lparr>noticeGiven = isTrue (noticeReceived data), ta_noticeDate = noticeDate data,
        ta_noticeType = orElse (noticeType data) ''unknown'', ta_courtDate = courtDate data,
        ta_filingDate = filingDate data, issues = [], compliant = True, details = noDetails\<rparr>)"
  have tl: "analyzeTimeline now ds data = checkAppeal now data a2"
    by (simp add: analyzeTimeline_def a2_def Let_def)
  have before: "\<And>i. i \<in> set (issues a2) \<Longrightarrow> i_type i \<noteq> ''appeal_deadline'' \<and>
                    i_type i \<noteq> ''appeal_deadline_passed''"
    unfolding a2_def by (drule issues_before_appeal) auto
  have np: "mkIssue ''appeal_deadline_passed'' ''critical'' \<notin> set (issues a2)"
    using before[of "mkIssue ''appeal_deadline_passed'' ''critical''"] by (auto simp: mkIssue_def)
  have nd: "mkIssue ''appeal_deadline'' ''critical'' \<notin> set (issues a2)"
    using before[of "mkIssue ''appeal_deadline'' ''critical''"] by (auto simp: mkIssue_def)
  have ne: "mkIssue ''appeal_deadline'' ''critical'' \<noteq> mkIssue ''appeal_deadline_passed'' ''critical''"
    by (simp add: mkIssue_def)
  have dated: "daysSinceJudgment (details (analyzeTimeline now ds data)) =
              Some (Num ((now - j) div 86400000)) \<and>
            daysLeftToAppeal (details (analyzeTimeline now ds data)) =
              Some (Num (max 0 (10 - (now - j) div 86400000))) \<and>
            (max 0 (10 - (now - j) div 86400000) = 0 \<longrightarrow>
               mkIssue ''appeal_deadline_passed'' ''critical'' \<in> set (issues (analyzeTimeline now ds data)) \<and>
               mkIssue ''appeal_deadline'' ''critical'' \<notin> set (issues (analyzeTimeline now ds data))) \<and>
            (max 0 (10 - (now - j) div 86400000) > 0 \<longrightarrow>
               mkIssue ''appeal_deadline'' ''critical'' \<in> set (issues (analyzeTimeline now ds data)) \<and>
               mkIssue ''appeal_deadline_passed'' ''critical'' \<notin> set (issues (analyzeTimeline now ds data)))"
    if j: "judgmentDate data = Date j" for j
    using np nd ne
    by (simp add: tl details_checkAppeal_flagged[OF assms] j truthyDate_def floorDays_Num
          del: floorDays.simps)
  have undated: "daysLeftToAppeal (details (analyzeTimeline now ds data)) = Some (Num 10) \<and>
            mkIssue ''appeal_deadline'' ''critical'' \<in> set (issues (analyzeTimeline now ds data))"
    if "judgmentDate data = NoDate"
    using that
    by (simp add: tl details_checkAppeal_flagged[OF assms] truthyDate_def floorDays_Num
          del: floorDays.simps)
  have tn: "sc_appealDays config_tn = 10"
    by (simp add: config_tn_def)
  from dated undated tn show ?thesis by blast
qed

theorem appeal_window_remaining_witness:
  "isTrue (judgmentReceived judgmentElevenDaysAgo) \<and>
   judgmentDate judgmentElevenDaysAgo = Date 0 \<and>
   daysSinceJudgment (details (analyzeTimeline elevenDays noStrategies judgmentElevenDaysAgo)) = Some (Num 11) \<and>
   daysLeftToAppeal (details (analyzeTimeline elevenDays noStrategies judgmentElevenDaysAgo)) = Some (Num 0) \<and>
   mkIssue ''appeal_deadline_passed'' ''critical'' \<in>
     set (issues (analyzeTimeline elevenDays noStrategies judgmentElevenDaysAgo))"
proof -
  have f: "isTrue (judgmentReceived judgmentElevenDaysAgo)"
    by (simp add: judgmentElevenDaysAgo_def isTrue_def)
  have j: "judgmentDate judgmentElevenDaysAgo = Date 0"
    by (simp add: judgmentElevenDaysAgo_def)
  have d: "(elevenDays - 0) div 86400000 = 11" "max 0 (10 - (elevenDays - 0) div 86400000) = 0"
    by (simp_all add: elevenDays_def)
  from appeal_window_remaining[OF f, of elevenDays noStrategies] j
  have "daysSinceJudgment (details (analyzeTimeline elevenDays noStrategies judgmentElevenDaysAgo)) =
          Some (Num ((elevenDays - 0) div 86400000)) \<and>
        daysLeftToAppeal (details (analyzeTimeline elevenDays noStrategies judgmentElevenDaysAgo)) =
          Some (Num (max 0 (10 - (elevenDays - 0) div 86400000))) \<and>
        (max 0 (10 - (elevenDays - 0) div 86400000) = 0 \<longrightarrow>
           mkIssue ''appeal_deadline_passed'' ''critical'' \<in>
             set (issues (analyzeTimeline elevenDays noStrategies judgmentElevenDaysAgo)))"
    by blast
  with f j d show ?thesis by simp
qed

text \<open>
  The claim as stated fails: a judgment date eleven days old, the flag not set. No appeal
  window is computed and no issue is recorded.
\<close>

theorem appeal_window_flag_counterexample:
  "judgmentDate judgmentDateOnly = Date 0 \<and>
   daysLeftToAppeal (details (analyzeTimeline elevenDays noStrategies judgmentDateOnly)) = None \<and>
   issues (analyzeTimeline elevenDays noStrategies judgmentDateOnly) = []"
  by code_simp

section \<open>Determinism\<close>

lemma checkCourt_no_date: "ta_courtDate a = NoDate \<Longrightarrow> checkCourt now a = a"
  by (simp add: checkCourt_def truthyDate_def)

lemma checkAppeal_no_flag: "\<not> isTrue (judgmentReceived data) \<Longrightarrow> checkAppeal now data a = a"
  by (simp add: checkAppeal_def)

lemma ta_courtDate_checkNotice: "ta_courtDate (checkNotice et a) = ta_courtDate a"
  by (simp add: checkNotice_def Let_def)

lemma analyzeTimeline_no_clock:
  assumes "courtDate data = NoDate" "\<not> isTrue (judgmentReceived data)"
  shows "analyzeTimeline now ds data = analyzeTimeline now' ds data"
  using assms
  by (simp add: analyzeTimeline_def Let_def checkAppeal_no_flag checkCourt_no_date
        ta_courtDate_checkNotice)

lemma determineUrgency_no_clock:
  assumes "courtDate data = NoDate" "\<not> isTrue (judgmentReceived data)"
  shows "determineUrgency now data = ''standard''"
  using assms by (simp add: determineUrgency_def truthyDate_def)

lemma assessEligibility_no_clock:
  assumes "sentenceCompletionDate s = NoDate \<or> oc \<noteq> Convicted \<or> hasPendingCharges s"
  shows "assessEligibility now s ct oc = assessEligibility now' s ct oc"
proof -
  have w: "sentenceCompletionDate s = NoDate \<Longrightarrow>
           checkWaitingPeriod now s ct = checkWaitingPeriod now' s ct"
    by (simp add: checkWaitingPeriod_def truthyDate_def)
  from assms show ?thesis
  proof (elim disjE)
    assume "sentenceCompletionDate s = NoDate"
    from w[OF this] show ?thesis unfolding assessEligibility_def by (simp only:)
  next
    assume "oc \<noteq> Convicted"
    then show ?thesis by (simp add: assessEligibility_def)
  next
    assume "hasPendingCharges s"
    then show ?thesis by (simp add: assessEligibility_def)
  qed
qed

text \<open>
  Claim C9, as the code has it: an evaluation reads the clock, and its record carries the
  reading. Two evaluations of the same input and policy data agree on the eviction type,
  the defenses, the recommended defenses and the county, and on the expungement
  procedure; when the eviction input has no court date and no judgment, they agree on
  the whole record but for \<open>timestamp\<close>; when the expungement input has no completion
  date, or is not a conviction, or has pending charges, likewise.
\<close>

theorem evaluation_determinism_up_to_clock:
  "ea_evictionType (analyzeSituation now ds data) = ea_evictionType (analyzeSituation now' ds data) \<and>
   defenses (analyzeSituation now ds data) = defenses (analyzeSituation now' ds data) \<and>
   recommendedDefenses (analyzeSituation now ds data) =
     recommendedDefenses (analyzeSituation now' ds data) \<and>
   ea_county (analyzeSituation now ds data) = ea_county (analyzeSituation now' ds data) \<and>
   (courtDate data = NoDate \<and> \<not> isTrue (judgmentReceived data) \<longrightarrow>
      analyzeSituation now ds data = (analyzeSituation now' ds data)\<lparr>timestamp := now\<rparr>) \<and>
   map_sum id xa_procedure (analyzeSituation_tn now procs s) =
     map_sum id xa_procedure (analyzeSituation_tn now' procs s) \<and>
   (sentenceCompletionDate s = NoDate \<or> determineOutcome s \<noteq> Convicted \<or> hasPendingCharges s \<longrightarrow>
      analyzeSituation_tn now procs s =
        map_sum id (\<lambda>a. a\<lparr>xa_timestamp := now\<rparr>) (analyzeSituation_tn now' procs s))"
proof -
  have a: "ea_evictionType (analyzeSituation now ds data) = ea_evictionType (analyzeSituation now' ds data)"
    "defenses (analyzeSituation now ds data) = defenses (analyzeSituation now' ds data)"
    "recommendedDefenses (analyzeSituation now ds data) =
       recommendedDefenses (analyzeSituation now' ds data)"
    "ea_county (analyzeSituation now ds data) = ea_county (analyzeSituation now' ds data)"
    by (simp_all add: analyzeSituation_def Let_def)
  have b: "analyzeSituation now ds data = (analyzeSituation now' ds data)\<lparr>timestamp := now\<rparr>"
    if "courtDate data = NoDate \<and> \<not> isTrue (judgmentReceived data)"
    using that analyzeTimeline_no_clock[of data now ds now']
      determineUrgency_no_clock[of data now] determineUrgency_no_clock[of data now']
    by (simp add: analyzeSituation_def Let_def)
  have c: "map_sum id xa_procedure (analyzeSituation_tn now procs s) =
     map_sum id xa_procedure (analyzeSituation_tn now' procs s)"
    by (simp add: analyzeSituation_tn_def Let_def split: sum.splits)
  have d: "analyzeSituation_tn now procs s =
        map_sum id (\<lambda>a. a\<lparr>xa_timestamp := now\<rparr>) (analyzeSituation_tn now' procs s)"
    if "sentenceCompletionDate s = NoDate \<or> determineOutcome s \<noteq> Convicted \<or> hasPendingCharges s"
    using assessEligibility_no_clock[OF that, of now "determineChargeType s" now']
    by (simp add: analyzeSituation_tn_def Let_def split: sum.splits)
  from a b c d show ?thesis by blast
qed

theorem evaluation_determinism_up_to_clock_witness:
  "courtDate blankData = NoDate \<and> \<not> isTrue (judgmentReceived blankData) \<and>
   analyzeSituation 0 noStrategies blankData =
     (analyzeSituation 1 noStrategies blankData)\<lparr>timestamp := 0\<rparr> \<and>
   sentenceCompletionDate convictedNoDate = NoDate \<and>
   analyzeSituation_tn 0 (Some emptyTable) convictedNoDate =
     map_sum id (\<lambda>a. a\<lparr>xa_timestamp := 0\<rparr>) (analyzeSituation_tn 1 (Some emptyTable) convictedNoDate)"
proof -
  have h: "courtDate blankData = NoDate \<and> \<not> isTrue (judgmentReceived blankData)"
    by (simp add: blankData_def isTrue_def)
  have g: "sentenceCompletionDate convictedNoDate = NoDate"
    by (simp add: convictedNoDate_def)
  from evaluation_determinism_up_to_clock[of 0 noStrategies blankData 1 "Some emptyTable" convictedNoDate] h g
  show ?thesis by blast
qed

text \<open>
  The claim as stated fails: the same blank input evaluated at two clock readings gives
  two different records.
\<close>

theorem evaluation_determinism_counterexample:
  "analyzeSituation 0 noStrategies blankData \<noteq> analyzeSituation 1 noStrategies blankData"
proof
  assume "analyzeSituation 0 noStrategies blankData = analyzeSituation 1 noStrategies blankData"
  then have "timestamp (analyzeSituation 0 noStrategies blankData) =
             timestamp (analyzeSituation 1 noStrategies blankData)"
    by (rule arg_cong)
  then show False by (simp add: analyzeSituation_def Let_def)
qed

section \<open>Conviction without a completion date\<close>

text \<open>
  Claim C10, as the code has it: for an input whose outcome is a conviction and which has
  no sentence completion date, the waiting-period check reports not met and the status is
  never \<open>eligible\<close>, whatever \<open>allFinesPaid\<close> and \<open>probationCompleted\<close> are. The status is
  \<open>pending\<close> when there are no pending charges and the offense is not a blocked one; with
  pending charges or a blocked offense it is \<open>ineligible\<close>.
\<close>

theorem conviction_without_completion_date:
  assumes "sentenceCompletionDate s = NoDate" and "determineOutcome s = Convicted"
  shows "\<not> wp_met (checkWaitingPeriod now s (determineChargeType s)) \<and>
         status (assessEligibility now s (determineChargeType s) (determineOutcome s)) \<noteq> ''eligible'' \<and>
         (hasPendingCharges s \<or> ineligible (checkIneligibleOffenses s (determineChargeType s)) \<longrightarrow>
            status (assessEligibility now s (determineChargeType s) (determineOutcome s)) = ''ineligible'') \<and>
         (\<not> hasPendingCharges s \<and>
          \<not> ineligible (checkIneligibleOffenses s (determineChargeType s)) \<longrightarrow>
            status (assessEligibility now s (determineChargeType s) (determineOutcome s)) = ''pending'' \<and>
            \<not> waitingPeriodMet (assessEligibility now s (determineChargeType s) (determineOutcome s)))"
  using assms
  by (simp add: assessEligibility_def checkWaitingPeriod_def truthyDate_def
        initialEligibility_def Let_def)

theorem conviction_without_completion_date_witness:
  "sentenceCompletionDate convictedNoDate = NoDate \<and>
   determineOutcome convictedNoDate = Convicted \<and>
   allFinesPaid convictedNoDate \<and> probationCompleted convictedNoDate \<and>
   \<not> hasPendingCharges convictedNoDate \<and>
   \<not> ineligible (checkIneligibleOffenses convictedNoDate (determineChargeType convictedNoDate)) \<and>
   status (assessEligibility 0 convictedNoDate (determineChargeType convictedNoDate)
             (determineOutcome convictedNoDate)) = ''pending''"
proof -
  have h: "sentenceCompletionDate convictedNoDate = NoDate"
    by (simp add: convictedNoDate_def)
  have o: "determineOutcome convictedNoDate = Convicted"
    by code_simp
  have f: "allFinesPaid convictedNoDate \<and> probationCompleted convictedNoDate \<and>
           \<not> hasPendingCharges convictedNoDate"
    by (simp add: convictedNoDate_def)
  have i: "\<not> ineligible (checkIneligibleOffenses convictedNoDate (determineChargeType convictedNoDate))"
    by code_simp
  from conviction_without_completion_date[OF h o, of 0] f i
  have "status (assessEligibility 0 convictedNoDate (determineChargeType convictedNoDate)
             (determineOutcome convictedNoDate)) = ''pending''"
    by blast
  with h o f i show ?thesis by blast
qed

text \<open>
  The claim as stated fails: the same conviction, fines paid and probation completed, the
  offense not a blocked one, with pending charges reported. The status is \<open>ineligible\<close>,
  not \<open>pending\<close>.
\<close>

theorem conviction_pending_charges_counterexample:
  "sentenceCompletionDate convictedPendingCharges = NoDate \<and>
   determineOutcome convictedPendingCharges = Convicted \<and>
   allFinesPaid convictedPendingCharges \<and> probationCompleted convictedPendingCharges \<and>
   \<not> ineligible (checkIneligibleOffenses convictedPendingCharges
                   (determineChargeType convictedPendingCharges)) \<and>
   status (assessEligibility 0 convictedPendingCharges (determineChargeType convictedPendingCharges)
             (determineOutcome convictedPendingCharges)) = ''ineligible''"
  by code_simp

end
